theory Spec2Isabelle
  imports Main "HOL-Library.Char_ord" "HOL-Library.List_Lexorder" "HOL-Library.Word"
begin

section \<open>Go's \<^verbatim>\<open>time\<close> package, as far as \<^verbatim>\<open>repository.go\<close> uses it\<close>

text \<open>
  \<^verbatim>\<open>repository.go\<close> calls \<^verbatim>\<open>time.Time.UTC\<close>, \<^verbatim>\<open>Add\<close>, \<^verbatim>\<open>Format\<close> and \<^verbatim>\<open>time.Parse\<close>
  with seven layout strings. A \<^verbatim>\<open>time.Time\<close> is an instant together with a location;
  none of the layouts has a zone verb, so of the location only its offset from UTC
  at the instant is observable. The instant is kept in nanoseconds since the Unix
  epoch, the offset in seconds east of UTC.
\<close>

record Time =
  unixNano :: int
  zoneOffset :: int

definition UTC :: "Time \<Rightarrow> Time" where
  "UTC t = t\<lparr>zoneOffset := 0\<rparr>"

definition Add :: "Time \<Rightarrow> int \<Rightarrow> Time" where
  "Add t d = t\<lparr>unixNano := unixNano t + d\<rparr>"

text \<open>The fields of \<^verbatim>\<open>t.Date()\<close>, \<^verbatim>\<open>t.Clock()\<close> and \<^verbatim>\<open>t.Nanosecond()\<close>.\<close>

record civil =
  year :: int
  month :: int
  day :: int
  hour :: int
  minute :: int
  second :: int
  nanosecond :: int

text \<open>
  Days since 1970-01-01 to a date of the proleptic Gregorian calendar and back.
  The years are counted from 1 March, so that the leap day ends a year. The days
  are cut into cycles of 400 years (146097 days), of 100 years (36524 days, the
  fourth of a cycle one day longer), of 4 years (1461 days) and of one year (365
  days, the fourth one day longer); on the last day of a longer cycle the quotient
  is 4 and is cut back to 3.
\<close>

definition yearDay :: "int \<Rightarrow> int \<times> int" where
  "yearDay a =
     (let n400 = a div 146097;
          d400 = a mod 146097;
          n100 = min 3 (d400 div 36524);
          d100 = d400 - 36524 * n100;
          n4 = d100 div 1461;
          d4 = d100 mod 1461;
          n1 = min 3 (d4 div 365)
      in (400 * n400 + 100 * n100 + 4 * n4 + n1, d4 - 365 * n1))"

definition civilFromDays :: "int \<Rightarrow> int \<times> int \<times> int" where
  "civilFromDays z =
     (let (y, doy) = yearDay (z + 719468);
          mp = (5 * doy + 2) div 153;
          d = doy - (153 * mp + 2) div 5 + 1;
          m = (if mp < 10 then mp + 3 else mp - 9)
      in (if m \<le> 2 then y + 1 else y, m, d))"

definition daysFromCivil :: "int \<Rightarrow> int \<Rightarrow> int \<Rightarrow> int" where
  "daysFromCivil y m d =
     (let y' = (if m \<le> 2 then y - 1 else y);
          era = y' div 400;
          yoe = y' mod 400;
          doy = (153 * (if m > 2 then m - 3 else m + 9) + 2) div 5 + d - 1;
          doe = yoe * 365 + yoe div 4 - yoe div 100 + doy
      in era * 146097 + doe - 719468)"

definition civilOf :: "Time \<Rightarrow> civil" where
  "civilOf t =
     (let local = unixNano t + zoneOffset t * 1000000000;
          secs = local div 1000000000;
          sod = secs mod 86400;
          (y, m, d) = civilFromDays (secs div 86400)
      in \<lparr>year = y, month = m, day = d,
          hour = sod div 3600, minute = (sod mod 3600) div 60, second = sod mod 60,
          nanosecond = local mod 1000000000\<rparr>)"

text \<open>\<^verbatim>\<open>time.Date(y, m, d, h, mi, s, ns, time.UTC)\<close>.\<close>

definition Date :: "civil \<Rightarrow> Time" where
  "Date c =
     \<lparr>unixNano =
        ((daysFromCivil (year c) (month c) (day c) * 86400
          + hour c * 3600 + minute c * 60 + second c) * 1000000000 + nanosecond c),
      zoneOffset = 0\<rparr>"

definition isLeap :: "int \<Rightarrow> bool" where
  "isLeap y = (y mod 4 = 0 \<and> (y mod 100 \<noteq> 0 \<or> y mod 400 = 0))"

definition daysIn :: "int \<Rightarrow> int \<Rightarrow> int" where
  "daysIn m y =
     (if m = 2 then (if isLeap y then 29 else 28)
      else if m = 4 \<or> m = 6 \<or> m = 9 \<or> m = 11 then 30 else 31)"

subsection \<open>Decimal digits\<close>

definition isDigit :: "char \<Rightarrow> bool" where
  "isDigit c = (CHR ''0'' \<le> c \<and> c \<le> CHR ''9'')"

definition digitChar :: "int \<Rightarrow> char" where
  "digitChar n = char_of (48 + n)"

definition digitVal :: "char \<Rightarrow> int" where
  "digitVal c = of_char c - 48"

function digits :: "int \<Rightarrow> string" where
  "digits n = (if n < 10 then [digitChar n] else digits (n div 10) @ [digitChar (n mod 10)])"
  by pat_completeness auto
termination
  by (relation "measure nat") auto

declare digits.simps [simp del]

text \<open>
  \<^verbatim>\<open>appendInt(b, x, width)\<close>: a minus sign for a negative \<open>x\<close>, then the decimal
  digits of \<open>|x|\<close> left-padded with zeros to \<open>width\<close>.
\<close>

definition appendInt :: "int \<Rightarrow> nat \<Rightarrow> string" where
  "appendInt x width =
     (let ds = digits \<bar>x\<bar>
      in (if x < 0 then ''-'' else '''') @ replicate (width - length ds) CHR ''0'' @ ds)"

text \<open>
  The fractional second of a \<^verbatim>\<open>.999\<close> verb with \<open>n\<close> nines: the first \<open>n\<close> of the nine
  digits of the nanosecond, trailing zeros removed, and nothing at all (no
  separator either) when no digit is left.
\<close>

definition formatNano9 :: "int \<Rightarrow> nat \<Rightarrow> string" where
  "formatNano9 nsec n =
     (let ds = take n (appendInt nsec 9);
          kept = rev (dropWhile (\<lambda>c. c = CHR ''0'') (rev ds))
      in if kept = [] then [] else CHR ''.'' # kept)"

subsection \<open>Layouts\<close>

text \<open>
  The verbs of a layout that occur in this repository's layouts; every other
  character of those layouts is literal text. (\<^verbatim>\<open>nextStdChunk\<close> knows more verbs;
  none of them occurs in the seven layouts below.) A fraction verb is a separator
  followed by nines and then by something that is not a digit.
\<close>

datatype std = stdLongYear | stdZeroMonth | stdZeroDay | stdHour | stdZeroMinute
  | stdZeroSecond | stdFracSecond9 nat

definition stdAt :: "string \<Rightarrow> (std \<times> string) option" where
  "stdAt l =
     (if take 4 l = ''2006'' then Some (stdLongYear, drop 4 l)
      else if take 2 l = ''01'' then Some (stdZeroMonth, drop 2 l)
      else if take 2 l = ''02'' then Some (stdZeroDay, drop 2 l)
      else if take 2 l = ''04'' then Some (stdZeroMinute, drop 2 l)
      else if take 2 l = ''05'' then Some (stdZeroSecond, drop 2 l)
      else if take 2 l = ''15'' then Some (stdHour, drop 2 l)
      else if take 2 l = ''.9'' then
        (let nines = takeWhile (\<lambda>c. c = CHR ''9'') (drop 1 l);
             rest = dropWhile (\<lambda>c. c = CHR ''9'') (drop 1 l)
         in if rest \<noteq> [] \<and> isDigit (hd rest) then None
            else Some (stdFracSecond9 (length nines), rest))
      else None)"

text \<open>
  A layout cut as \<^verbatim>\<open>Format\<close> and \<^verbatim>\<open>Parse\<close> walk it with \<^verbatim>\<open>nextStdChunk\<close>: each verb
  with the literal text in front of it, and the literal text after the last verb.
\<close>

function layoutChunks :: "string \<Rightarrow> string \<Rightarrow> (string \<times> std) list \<times> string" where
  "layoutChunks pre [] = ([], pre)"
| "layoutChunks pre (c # cs) =
     (case stdAt (c # cs) of
        Some (s, rest) \<Rightarrow> (let (ps, suf) = layoutChunks [] rest in ((pre, s) # ps, suf))
      | None \<Rightarrow> layoutChunks (pre @ [c]) cs)"
  by pat_completeness auto
termination
proof (relation "measure (\<lambda>(pre, l). length l)")
  fix pre :: string and c :: char and cs :: string and x :: "std \<times> string"
    and s :: std and r :: string
  assume a: "stdAt (c # cs) = Some x" and x: "(s, r) = x"
  let ?l = "c # cs"
  have d: "\<And>n. 0 < n \<Longrightarrow> length (drop n ?l) < length ?l"
    by simp
  have "length (dropWhile (\<lambda>c. c = CHR ''9'') (drop 1 ?l)) \<le> length (drop 1 ?l)"
    by (rule length_dropWhile_le)
  then have w: "length (dropWhile (\<lambda>c. c = CHR ''9'') (drop 1 ?l)) < length ?l"
    using d [of 1] by linarith
  have "r = drop 4 ?l \<or> r = drop 2 ?l \<or> r = dropWhile (\<lambda>c. c = CHR ''9'') (drop 1 ?l)"
    using a x unfolding stdAt_def Let_def by (auto split: if_splits)
  then have "length r < length ?l"
    using d [of 4] d [of 2] w by auto
  then show "(([], r), (pre, c # cs)) \<in> measure (\<lambda>(pre, l). length l)"
    by simp
qed simp_all

subsection \<open>\<^verbatim>\<open>Time.Format\<close>\<close>

fun appendStd :: "std \<Rightarrow> civil \<Rightarrow> string" where
  "appendStd stdLongYear c = appendInt (year c) 4"
| "appendStd stdZeroMonth c = appendInt (month c) 2"
| "appendStd stdZeroDay c = appendInt (day c) 2"
| "appendStd stdHour c = appendInt (hour c) 2"
| "appendStd stdZeroMinute c = appendInt (minute c) 2"
| "appendStd stdZeroSecond c = appendInt (second c) 2"
| "appendStd (stdFracSecond9 n) c = formatNano9 (nanosecond c) n"

definition formatCivil :: "civil \<Rightarrow> string \<Rightarrow> string" where
  "formatCivil c layout =
     (let (ps, suf) = layoutChunks [] layout
      in concat (map (\<lambda>(pre, s). pre @ appendStd s c) ps) @ suf)"

definition Format :: "Time \<Rightarrow> string \<Rightarrow> string" where
  "Format t layout = formatCivil (civilOf t) layout"

subsection \<open>\<^verbatim>\<open>time.Parse\<close>\<close>

datatype error = ErrNoRows | EngineError string | ParseError string

definition cutspace :: "string \<Rightarrow> string" where
  "cutspace s = dropWhile (\<lambda>c. c = CHR '' '') s"

text \<open>
  \<^verbatim>\<open>skip(value, prefix)\<close>: the literal text of the layout must lead the value; a run
  of spaces in the layout stands for any run of spaces in the value (none only at
  the end of the value).
\<close>

function skip :: "string \<Rightarrow> string \<Rightarrow> string option" where
  "skip v [] = Some v"
| "skip v (p # ps) =
     (if p = CHR '' '' then
        (if v \<noteq> [] \<and> hd v \<noteq> CHR '' '' then None else skip (cutspace v) (cutspace ps))
      else
        (case v of [] \<Rightarrow> None
         | x # xs \<Rightarrow> if x \<noteq> p then None else skip xs ps))"
  by pat_completeness auto
termination
proof (relation "measure (\<lambda>(v, p). length p)")
  fix v :: string and p :: char and ps :: string
  have "length (cutspace ps) \<le> length ps"
    unfolding cutspace_def by (rule length_dropWhile_le)
  then show "((cutspace v, cutspace ps), (v, p # ps)) \<in> measure (\<lambda>(v, p). length p)"
    by simp
qed simp_all

definition digitsVal :: "string \<Rightarrow> int" where
  "digitsVal s = foldl (\<lambda>a c. a * 10 + digitVal c) 0 s"

text \<open>\<^verbatim>\<open>getnum(s, fixed)\<close>: one or two digits, exactly two when \<open>fixed\<close>.\<close>

definition getnum :: "string \<Rightarrow> bool \<Rightarrow> (int \<times> string) option" where
  "getnum s fixed =
     (case s of
        [] \<Rightarrow> None
      | c # r \<Rightarrow>
          if \<not> isDigit c then None
          else (case r of
                  [] \<Rightarrow> if fixed then None else Some (digitVal c, r)
                | c2 # r2 \<Rightarrow>
                    if \<not> isDigit c2 then (if fixed then None else Some (digitVal c, r))
                    else Some (digitVal c * 10 + digitVal c2, r2)))"

definition commaOrPeriod :: "char \<Rightarrow> bool" where
  "commaOrPeriod c = (c = CHR ''.'' \<or> c = CHR '','')"

text \<open>
  A separator and the digits after it, read as nanoseconds: \<^verbatim>\<open>parseNanoseconds\<close>
  keeps the first nine digits and scales a shorter run up.
\<close>

definition parseNanoseconds :: "string \<Rightarrow> int" where
  "parseNanoseconds ds = (let ds' = take 9 ds in digitsVal ds' * 10 ^ (9 - length ds'))"

definition hasFraction :: "string \<Rightarrow> bool" where
  "hasFraction v = (case v of c # d # _ \<Rightarrow> commaOrPeriod c \<and> isDigit d | _ \<Rightarrow> False)"

definition takeFraction :: "string \<Rightarrow> civil \<Rightarrow> string \<times> civil" where
  "takeFraction v c =
     (let ds = takeWhile isDigit (drop 1 v)
      in (drop (1 + length ds) v, c\<lparr>nanosecond := parseNanoseconds ds\<rparr>))"

definition isFracVerb :: "std option \<Rightarrow> bool" where
  "isFracVerb s = (case s of Some (stdFracSecond9 n) \<Rightarrow> True | _ \<Rightarrow> False)"

text \<open>
  One verb of \<^verbatim>\<open>Parse\<close>; \<open>nxt\<close> is the verb that follows in the layout, which the
  seconds verb looks at before it reads a fraction the layout does not announce.
\<close>

fun parseStd :: "std \<Rightarrow> std option \<Rightarrow> string \<Rightarrow> civil \<Rightarrow> error + (string \<times> civil)" where
  "parseStd stdLongYear nxt v c =
     (if length v < 4 \<or> \<not> isDigit (hd v) then Inl (ParseError ''year'')
      else if \<not> list_all isDigit (take 4 v) then Inl (ParseError ''year'')
      else Inr (drop 4 v, c\<lparr>year := digitsVal (take 4 v)\<rparr>))"
| "parseStd stdZeroMonth nxt v c =
     (case getnum v True of
        None \<Rightarrow> Inl (ParseError ''month'')
      | Some (m, r) \<Rightarrow>
          if m \<le> 0 \<or> 12 < m then Inl (ParseError ''month out of range'')
          else Inr (r, c\<lparr>month := m\<rparr>))"
| "parseStd stdZeroDay nxt v c =
     (case getnum v True of
        None \<Rightarrow> Inl (ParseError ''day'')
      | Some (d, r) \<Rightarrow> Inr (r, c\<lparr>day := d\<rparr>))"
| "parseStd stdHour nxt v c =
     (case getnum v False of
        None \<Rightarrow> Inl (ParseError ''hour'')
      | Some (h, r) \<Rightarrow>
          if h < 0 \<or> 24 \<le> h then Inl (ParseError ''hour out of range'')
          else Inr (r, c\<lparr>hour := h\<rparr>))"
| "parseStd stdZeroMinute nxt v c =
     (case getnum v True of
        None \<Rightarrow> Inl (ParseError ''minute'')
      | Some (m, r) \<Rightarrow>
          if m < 0 \<or> 60 \<le> m then Inl (ParseError ''minute out of range'')
          else Inr (r, c\<lparr>minute := m\<rparr>))"
| "parseStd stdZeroSecond nxt v c =
     (case getnum v True of
        None \<Rightarrow> Inl (ParseError ''second'')
      | Some (s, r) \<Rightarrow>
          if s < 0 \<or> 60 \<le> s then Inl (ParseError ''second out of range'')
          else if hasFraction r \<and> \<not> isFracVerb nxt then Inr (takeFraction r (c\<lparr>second := s\<rparr>))
          else Inr (r, c\<lparr>second := s\<rparr>))"
| "parseStd (stdFracSecond9 n) nxt v c =
     (if hasFraction v then Inr (takeFraction v c) else Inr (v, c))"

definition nextStd :: "(string \<times> std) list \<Rightarrow> std option" where
  "nextStd ps = (case ps of [] \<Rightarrow> None | (pre, s) # _ \<Rightarrow> Some s)"

fun parseChunks :: "(string \<times> std) list \<Rightarrow> string \<Rightarrow> string \<Rightarrow> civil \<Rightarrow> error + civil" where
  "parseChunks [] suf v c =
     (case skip v suf of
        None \<Rightarrow> Inl (ParseError ''literal'')
      | Some r \<Rightarrow> if r \<noteq> [] then Inl (ParseError ''extra text'') else Inr c)"
| "parseChunks ((pre, s) # ps) suf v c =
     (case skip v pre of
        None \<Rightarrow> Inl (ParseError ''literal'')
      | Some r \<Rightarrow>
          (case parseStd s (nextStd ps) r c of
             Inl e \<Rightarrow> Inl e
           | Inr (r', c') \<Rightarrow> parseChunks ps suf r' c'))"

text \<open>
  \<^verbatim>\<open>time.Parse(layout, value)\<close>: the fields start at year 0 with month and day unset,
  a missing month or day becomes 1, the day is checked against the month, and the
  result is in UTC since no layout here has a zone.
\<close>

definition parseCivil :: "string \<Rightarrow> string \<Rightarrow> error + civil" where
  "parseCivil layout v =
     (let (ps, suf) = layoutChunks [] layout;
          c0 = \<lparr>year = 0, month = -1, day = -1, hour = 0, minute = 0, second = 0,
                nanosecond = 0\<rparr>
      in case parseChunks ps suf v c0 of
           Inl e \<Rightarrow> Inl e
         | Inr c \<Rightarrow>
             (let c1 = c\<lparr>month := (if month c < 0 then 1 else month c),
                          day := (if day c < 0 then 1 else day c)\<rparr>
              in if day c1 < 1 \<or> daysIn (month c1) (year c1) < day c1
                 then Inl (ParseError ''day out of range'')
                 else Inr c1))"

definition Parse :: "string \<Rightarrow> string \<Rightarrow> error + Time" where
  "Parse layout v = (case parseCivil layout v of Inl e \<Rightarrow> Inl e | Inr c \<Rightarrow> Inr (Date c))"

section \<open>The store\<close>

subsection \<open>Entities\<close>

text \<open>
  Modelled from the spec: the structs \<^verbatim>\<open>server.Key\<close>, \<^verbatim>\<open>server.KeyUsage\<close>,
  \<^verbatim>\<open>server.Transaction\<close> and \<^verbatim>\<open>server.TransactionInfo\<close>, the type
  \<^verbatim>\<open>server.Granularity\<close> and the row struct \<^verbatim>\<open>repository.TransactionInfo\<close> are declared
  outside \<^verbatim>\<open>repository.go\<close>. Their fields are the ones \<^verbatim>\<open>repository.go\<close> reads and
  writes, with the types of the spec's data model; \<^verbatim>\<open>CreatedAt\<close> is a string, as the
  calls of \<^verbatim>\<open>time.Parse\<close> on it show. \<open>Other\<close> stands for any value of
  \<^verbatim>\<open>server.Granularity\<close> beyond the named ones.
\<close>

record Key =
  ApiKey :: string
  PrivateKey :: string
  PublicKey :: string
  Address :: string
  CreatedAt :: string
  RevokedAt :: "string option"

record KeyUsage = Key +
  DataBytes :: int

record Transaction =
  TxID :: string
  TxApiKey :: string
  TxDataBytes :: int
  TxFilename :: "string option"
  TxSecret :: "string option"
  TxIsHash :: bool
  TxCreatedAt :: string

record TransactionInfo =
  Timestamp :: Time
  Count :: int
  InfoDataBytes :: int

datatype Granularity = GranularityNone | Minute | Hour | Day | Other nat

subsection \<open>The database\<close>

text \<open>
  Modelled from the spec: the schema and the engine are outside \<^verbatim>\<open>repository.go\<close>.
  The two tables hold rows in insertion order. A row of \<^verbatim>\<open>keys\<close> has the columns of
  \<^verbatim>\<open>Key\<close>; a row of \<^verbatim>\<open>transactions\<close> has the columns that \<^verbatim>\<open>InsertTransaction\<close>
  names, with \<^verbatim>\<open>is_hash\<close> an integer. \<^verbatim>\<open>api_key\<close> is the primary key of \<^verbatim>\<open>keys\<close> and
  \<^verbatim>\<open>id\<close> is unique in \<^verbatim>\<open>transactions\<close>. \<open>fault\<close> is the error with which the engine
  answers every statement while it is unreachable. Timestamps are text that the
  engine stores and returns as it is and compares byte by byte, a proper prefix
  before its extensions, as the embedded engine does for every text value.

  What SQL leaves open is taken from the embedded engine. \<^verbatim>\<open>ORDER BY\<close> keeps rows of
  equal key in the order in which they reach the sort: the order of the table for
  a plain \<^verbatim>\<open>SELECT\<close>, ascending or descending, and the order of the grouping key for
  the groups of a \<^verbatim>\<open>GROUP BY\<close>. \<^verbatim>\<open>SUM\<close> over integers adds in 64 bits, and the
  statement fails with \<^verbatim>\<open>integer overflow\<close> once a partial sum has left that range.
  The order in which the rows of a group are added is the order of the table (the
  engine's plan may add them in another order, which matters only when sizes are
  negative).
\<close>

record TransactionRow =
  t_created_at :: string
  t_id :: string
  t_api_key :: string
  t_data_bytes :: int
  t_filename :: "string option"
  t_secret :: "string option"
  t_is_hash :: int

record DB =
  keys :: "Key list"
  transactions :: "TransactionRow list"
  fault :: "string option"

text \<open>
  Reading a row of \<^verbatim>\<open>transactions\<close> into a \<^verbatim>\<open>server.Transaction\<close>: the integer of
  \<^verbatim>\<open>is_hash\<close> becomes a boolean, and only 0 and 1 convert.
\<close>

definition scanTransaction :: "TransactionRow \<Rightarrow> error + Transaction" where
  "scanTransaction r =
     (if t_is_hash r = 0 \<or> t_is_hash r = 1 then
        Inr \<lparr>TxID = t_id r, TxApiKey = t_api_key r, TxDataBytes = t_data_bytes r,
             TxFilename = t_filename r, TxSecret = t_secret r,
             TxIsHash = (t_is_hash r = 1), TxCreatedAt = t_created_at r\<rparr>
      else Inl (EngineError ''sql: Scan error on column is_hash''))"

fun scanTransactions :: "TransactionRow list \<Rightarrow> error + Transaction list" where
  "scanTransactions [] = Inr []"
| "scanTransactions (r # rs) =
     (case scanTransaction r of
        Inl e \<Rightarrow> Inl e
      | Inr t \<Rightarrow> (case scanTransactions rs of Inl e \<Rightarrow> Inl e | Inr ts \<Rightarrow> Inr (t # ts)))"

text \<open>The rows of a statement, or the first error that one of them raises.\<close>

fun allRows :: "(error + 'a) list \<Rightarrow> error + 'a list" where
  "allRows [] = Inr []"
| "allRows (r # rs) =
     (case r of
        Inl e \<Rightarrow> Inl e
      | Inr x \<Rightarrow> (case allRows rs of Inl e \<Rightarrow> Inl e | Inr xs \<Rightarrow> Inr (x # xs)))"

text \<open>\<^verbatim>\<open>ORDER BY key DESC\<close>, rows of equal key in the order they had.\<close>

definition orderByDesc :: "('a \<Rightarrow> string) \<Rightarrow> 'a list \<Rightarrow> 'a list" where
  "orderByDesc key rows = rev (sort_key key (rev rows))"

text \<open>\<^verbatim>\<open>SUM\<close> over the integers of a group, added from the left in 64 bits.\<close>

definition int64 :: "int \<Rightarrow> bool" where
  "int64 x = (- 9223372036854775808 \<le> x \<and> x \<le> 9223372036854775807)"

fun sumFrom :: "int \<Rightarrow> int list \<Rightarrow> error + int" where
  "sumFrom acc [] = Inr acc"
| "sumFrom acc (x # xs) =
     (if int64 (acc + x) then sumFrom (acc + x) xs
      else Inl (EngineError ''integer overflow''))"

definition sqlSum :: "int list \<Rightarrow> error + int" where
  "sqlSum xs = sumFrom 0 xs"

text \<open>
  \<^verbatim>\<open>SUBSTR(x, start, len)\<close> for \<open>start \<ge> 0\<close> and \<open>len \<ge> 0\<close>: the characters at the
  positions \<open>p\<close> with \<open>start \<le> p < start + len\<close>, where the first character of \<open>x\<close>
  has position 1. Position 0 is in front of the text, so \<^verbatim>\<open>SUBSTR(x, 0, len)\<close> holds
  the first \<open>len - 1\<close> characters.
\<close>

definition sql_substr :: "string \<Rightarrow> int \<Rightarrow> int \<Rightarrow> string" where
  "sql_substr x start len =
     (let first = max start 1; stop = start + len
      in take (nat (stop - first)) (drop (nat (first - 1)) x))"

subsection \<open>Layouts of \<^verbatim>\<open>repository.go\<close>\<close>

definition ISO8601 :: string where
  "ISO8601 = ''2006-01-02T15:04:05.999Z''"

definition ISO8601DBOutput :: string where
  "ISO8601DBOutput = ''2006-01-02 15:04:05.999Z''"

definition ISO8601Sqlite :: string where
  "ISO8601Sqlite = ''2006-01-02 15:04:05.999+00:00''"

subsection \<open>Keys\<close>

text \<open>
  Every operation takes the value that the injected clock \<^verbatim>\<open>r.now()\<close> returns in
  that call, where it calls the clock, and the database; one that writes returns
  the database after the statement.
\<close>

definition InsertKey :: "Time \<Rightarrow> Key \<Rightarrow> DB \<Rightarrow> error + DB" where
  "InsertKey now key db =
     (let createdAt = Format (UTC now) ISO8601
      in case fault db of
           Some m \<Rightarrow> Inl (EngineError m)
         | None \<Rightarrow>
             if ApiKey key \<in> set (map ApiKey (keys db))
             then Inl (EngineError ''UNIQUE constraint failed: keys.api_key'')
             else Inr (db\<lparr>keys := keys db @
                    [\<lparr>ApiKey = ApiKey key, PrivateKey = PrivateKey key,
                      PublicKey = PublicKey key, Address = Address key,
                      CreatedAt = createdAt, RevokedAt = None\<rparr>]\<rparr>))"

definition GetKey :: "string \<Rightarrow> DB \<Rightarrow> error + Key" where
  "GetKey apiKey db =
     (case fault db of
        Some m \<Rightarrow> Inl (EngineError m)
      | None \<Rightarrow>
          (case filter (\<lambda>k. ApiKey k = apiKey) (keys db) of
             [] \<Rightarrow> Inl ErrNoRows
           | k # _ \<Rightarrow> Inr k))"

text \<open>
  The loop of the three bulk reads over the rows: a \<^verbatim>\<open>CreatedAt\<close> that parses with
  \<^verbatim>\<open>ISO8601Sqlite\<close> is replaced by its rendering with \<^verbatim>\<open>ISO8601DBOutput\<close>, any other
  stays.
\<close>

definition normalizeCreatedAt :: "string \<Rightarrow> string" where
  "normalizeCreatedAt s =
     (case Parse ISO8601Sqlite s of
        Inl e \<Rightarrow> s
      | Inr parsedTime \<Rightarrow> Format parsedTime ISO8601DBOutput)"

definition activeKeys :: "DB \<Rightarrow> Key list" where
  "activeKeys db = sort_key CreatedAt (filter (\<lambda>k. RevokedAt k = None) (keys db))"

definition GetAllKeys :: "DB \<Rightarrow> error + Key list" where
  "GetAllKeys db =
     (case fault db of
        Some m \<Rightarrow> Inl (EngineError m)
      | None \<Rightarrow>
          Inr (map (\<lambda>k. k\<lparr>CreatedAt := normalizeCreatedAt (CreatedAt k)\<rparr>) (activeKeys db)))"

text \<open>
  The query of \<^verbatim>\<open>GetAllKeysUsage\<close>, clause by clause: the left join gives each key
  one row per transaction of its \<^verbatim>\<open>api_key\<close>, or one row without a transaction; the
  rows of revoked keys go; the rest is grouped by \<^verbatim>\<open>k.api_key\<close>, the groups in the
  order of that key, a group taking the key columns of its first row and the sum
  of \<^verbatim>\<open>COALESCE(t.data_bytes, 0)\<close>; the groups are ordered by \<^verbatim>\<open>k.created_at\<close>.
\<close>

definition joinRows :: "TransactionRow list \<Rightarrow> Key \<Rightarrow> (Key \<times> TransactionRow option) list" where
  "joinRows txs k =
     (case filter (\<lambda>t. t_api_key t = ApiKey k) txs of
        [] \<Rightarrow> [(k, None)]
      | t # ts \<Rightarrow> map (\<lambda>t. (k, Some t)) (t # ts))"

definition leftJoin :: "DB \<Rightarrow> (Key \<times> TransactionRow option) list" where
  "leftJoin db = concat (map (joinRows (transactions db)) (keys db))"

definition coalesceBytes :: "TransactionRow option \<Rightarrow> int" where
  "coalesceBytes t = (case t of None \<Rightarrow> 0 | Some r \<Rightarrow> t_data_bytes r)"

definition groupUsage ::
  "(Key \<times> TransactionRow option) list \<Rightarrow> string \<Rightarrow> error + KeyUsage list" where
  "groupUsage rows a =
     (case filter (\<lambda>(k, t). ApiKey k = a) rows of
        [] \<Rightarrow> Inr []
      | (k, t) # g \<Rightarrow>
          (case sqlSum (map (\<lambda>(k, t). coalesceBytes t) ((k, t) # g)) of
             Inl e \<Rightarrow> Inl e
           | Inr bytes \<Rightarrow> Inr [Key.extend k \<lparr>DataBytes = bytes\<rparr>]))"

definition keysUsageRows :: "DB \<Rightarrow> error + KeyUsage list" where
  "keysUsageRows db =
     (let rows = filter (\<lambda>(k, t). RevokedAt k = None) (leftJoin db)
      in case allRows (map (groupUsage rows) (sort (remdups (map (\<lambda>(k, t). ApiKey k) rows)))) of
           Inl e \<Rightarrow> Inl e
         | Inr groups \<Rightarrow> Inr (sort_key CreatedAt (concat groups)))"

definition GetAllKeysUsage :: "DB \<Rightarrow> error + KeyUsage list" where
  "GetAllKeysUsage db =
     (case fault db of
        Some m \<Rightarrow> Inl (EngineError m)
      | None \<Rightarrow>
          (case keysUsageRows db of
             Inl e \<Rightarrow> Inl e
           | Inr rows \<Rightarrow>
               Inr (map (\<lambda>k. k\<lparr>CreatedAt := normalizeCreatedAt (CreatedAt k)\<rparr>) rows)))"

definition DeactivateKey :: "Time \<Rightarrow> string \<Rightarrow> DB \<Rightarrow> error + DB" where
  "DeactivateKey now apikey db =
     (case fault db of
        Some m \<Rightarrow> Inl (EngineError m)
      | None \<Rightarrow>
          Inr (db\<lparr>keys := map (\<lambda>k. if ApiKey k = apikey
                                      then k\<lparr>RevokedAt := Some (Format now ISO8601)\<rparr>
                                      else k)
                                (keys db)\<rparr>))"

subsection \<open>Transactions\<close>

definition bool2integer :: "bool \<Rightarrow> int" where
  "bool2integer b = (if b then 1 else 0)"

definition InsertTransaction :: "Time \<Rightarrow> Transaction \<Rightarrow> DB \<Rightarrow> error + DB" where
  "InsertTransaction now tx db =
     (let createdAt = Format (UTC now) ISO8601
      in case fault db of
           Some m \<Rightarrow> Inl (EngineError m)
         | None \<Rightarrow>
             if TxID tx \<in> set (map t_id (transactions db))
             then Inl (EngineError ''UNIQUE constraint failed: transactions.id'')
             else Inr (db\<lparr>transactions := transactions db @
                    [\<lparr>t_created_at = createdAt, t_id = TxID tx, t_api_key = TxApiKey tx,
                      t_data_bytes = TxDataBytes tx, t_filename = TxFilename tx,
                      t_secret = TxSecret tx, t_is_hash = bool2integer (TxIsHash tx)\<rparr>]\<rparr>))"

definition GetTransaction :: "string \<Rightarrow> DB \<Rightarrow> error + Transaction" where
  "GetTransaction txid db =
     (case fault db of
        Some m \<Rightarrow> Inl (EngineError m)
      | None \<Rightarrow>
          (case scanTransactions (filter (\<lambda>t. t_id t = txid) (transactions db)) of
             Inl e \<Rightarrow> Inl e
           | Inr [] \<Rightarrow> Inl ErrNoRows
           | Inr (tx # _) \<Rightarrow> Inr tx))"

text \<open>
  \<^verbatim>\<open>-1 * time.Duration(hoursBack) * time.Hour\<close>: a \<^verbatim>\<open>Duration\<close> is a 64-bit count of
  nanoseconds, and the product wraps around.
\<close>

definition hoursBackDuration :: "64 word \<Rightarrow> int" where
  "hoursBackDuration hoursBack = sint (- 1 * hoursBack * 3600000000000)"

definition transactionsSince :: "Time \<Rightarrow> bool \<Rightarrow> 64 word \<Rightarrow> DB \<Rightarrow> TransactionRow list" where
  "transactionsSince now all hoursBack db =
     (if all then orderByDesc t_created_at (transactions db)
      else
        (let timeBack = Format (UTC (Add now (hoursBackDuration hoursBack))) ISO8601
         in orderByDesc t_created_at
              (filter (\<lambda>t. timeBack \<le> t_created_at t) (transactions db))))"

definition GetAllTransactions :: "Time \<Rightarrow> bool \<Rightarrow> 64 word \<Rightarrow> DB \<Rightarrow> error + Transaction list" where
  "GetAllTransactions now all hoursBack db =
     (case fault db of
        Some m \<Rightarrow> Inl (EngineError m)
      | None \<Rightarrow>
          (case scanTransactions (transactionsSince now all hoursBack db) of
             Inl e \<Rightarrow> Inl e
           | Inr txs \<Rightarrow>
               Inr (map (\<lambda>t. t\<lparr>TxCreatedAt := normalizeCreatedAt (TxCreatedAt t)\<rparr>) txs)))"

subsection \<open>Bucketed usage\<close>

fun granularitySecondsToPositionAndFormat :: "Granularity \<Rightarrow> int \<times> string" where
  "granularitySecondsToPositionAndFormat GranularityNone = (20, ''2006-01-02T15:04:05'')"
| "granularitySecondsToPositionAndFormat Minute = (17, ''2006-01-02T15:04'')"
| "granularitySecondsToPositionAndFormat Hour = (14, ''2006-01-02T15'')"
| "granularitySecondsToPositionAndFormat _ = (11, ''2006-01-02'')"

text \<open>
  The query of \<^verbatim>\<open>GetTransactionInfo\<close>: the rows strictly between the two bounds, grouped
  by the \<^verbatim>\<open>SUBSTR\<close> of \<^verbatim>\<open>created_at\<close>, each group with its number of rows and the sum of
  their \<^verbatim>\<open>data_bytes\<close>, the groups in descending order of that text.
\<close>

definition rowsBetween :: "string \<Rightarrow> string \<Rightarrow> DB \<Rightarrow> TransactionRow list" where
  "rowsBetween lo hi db =
     filter (\<lambda>t. lo < t_created_at t \<and> t_created_at t < hi) (transactions db)"

definition stamp :: "int \<Rightarrow> TransactionRow \<Rightarrow> string" where
  "stamp position t = sql_substr (t_created_at t) 0 position"

definition bucketRow :: "int \<Rightarrow> TransactionRow list \<Rightarrow> string \<Rightarrow> error + (string \<times> int \<times> int)" where
  "bucketRow position rows b =
     (let g = filter (\<lambda>t. stamp position t = b) rows
      in case sqlSum (map t_data_bytes g) of
           Inl e \<Rightarrow> Inl e
         | Inr bytes \<Rightarrow> Inr (b, int (length g), bytes))"

definition bucketRows ::
  "int \<Rightarrow> string \<Rightarrow> string \<Rightarrow> DB \<Rightarrow> error + (string \<times> int \<times> int) list" where
  "bucketRows position lo hi db =
     (let rows = rowsBetween lo hi db
      in allRows (map (bucketRow position rows)
                    (rev (sort (remdups (map (stamp position) rows))))))"

fun parseBuckets :: "string \<Rightarrow> (string \<times> int \<times> int) list \<Rightarrow> error + TransactionInfo list" where
  "parseBuckets format [] = Inr []"
| "parseBuckets format ((ts, n, bytes) # txs) =
     (case Parse format ts of
        Inl e \<Rightarrow> Inl e
      | Inr timestamp \<Rightarrow>
          (case parseBuckets format txs of
             Inl e \<Rightarrow> Inl e
           | Inr infos \<Rightarrow>
               Inr (\<lparr>Timestamp = timestamp, Count = n, InfoDataBytes = bytes\<rparr> # infos)))"

definition GetTransactionInfo ::
  "Time \<Rightarrow> Time \<Rightarrow> Granularity \<Rightarrow> DB \<Rightarrow> error + TransactionInfo list" where
  "GetTransactionInfo from to granularity db =
     (let (position, format) = granularitySecondsToPositionAndFormat granularity
      in case fault db of
           Some m \<Rightarrow> Inl (EngineError m)
         | None \<Rightarrow>
             (case bucketRows position (Format from ISO8601) (Format to ISO8601) db of
                Inl e \<Rightarrow> Inl e
              | Inr txs \<Rightarrow> parseBuckets format txs))"

definition Health :: "DB \<Rightarrow> error + unit" where
  "Health db = (case fault db of Some m \<Rightarrow> Inl (EngineError m) | None \<Rightarrow> Inr ())"

section \<open>Example data\<close>

text \<open>
  A clock one hour east of UTC reading 2021-03-04T12:00:00.123Z, the same clock one
  minute later, four UTC instants, and small databases.
\<close>

definition emptyDB :: DB where
  "emptyDB = \<lparr>keys = [], transactions = [], fault = None\<rparr>"

definition exNow :: Time where
  "exNow = \<lparr>unixNano = 1614859200123000000, zoneOffset = 3600\<rparr>"

definition exLater :: Time where
  "exLater = \<lparr>unixNano = 1614859260000000000, zoneOffset = 3600\<rparr>"

definition exSince :: Time where
  "exSince = \<lparr>unixNano = 1614859200000000000, zoneOffset = 0\<rparr>"


definition exHalfSecond :: Time where
  "exHalfSecond = \<lparr>unixNano = 1614859200500000000, zoneOffset = 0\<rparr>"

definition exNextYear :: Time where
  "exNextYear = \<lparr>unixNano = 1646395200000000000, zoneOffset = 0\<rparr>"

definition exKey :: Key where
  "exKey = \<lparr>ApiKey = ''key-1'', PrivateKey = ''priv-1'', PublicKey = ''pub-1'',
            Address = ''addr-1'', CreatedAt = [], RevokedAt = None\<rparr>"

definition exTx :: Transaction where
  "exTx = \<lparr>TxID = ''tx-1'', TxApiKey = ''key-1'', TxDataBytes = 10, TxFilename = Some ''a.txt'',
           TxSecret = None, TxIsHash = True, TxCreatedAt = []\<rparr>"

definition exRow :: "string \<Rightarrow> string \<Rightarrow> int \<Rightarrow> TransactionRow" where
  "exRow i c n = \<lparr>t_created_at = c, t_id = i, t_api_key = ''key-1'', t_data_bytes = n,
                  t_filename = None, t_secret = None, t_is_hash = 0\<rparr>"

definition keyDB :: DB where
  "keyDB = \<lparr>keys = [exKey\<lparr>CreatedAt := ''2021-03-04T12:00:00.123Z''\<rparr>], transactions = [],
            fault = None\<rparr>"

definition txDB :: DB where
  "txDB = \<lparr>keys = [],
           transactions = [\<lparr>t_created_at = ''2021-03-04T12:00:00.123Z'', t_id = ''tx-1'',
             t_api_key = ''key-1'', t_data_bytes = 10, t_filename = Some ''a.txt'',
             t_secret = None, t_is_hash = 1\<rparr>],
           fault = None\<rparr>"

definition sqliteDB :: DB where
  "sqliteDB = \<lparr>keys = [exKey\<lparr>CreatedAt := ''2021-03-04 12:00:00.123+00:00''\<rparr>],
               transactions = [exRow ''tx-1'' ''2021-03-04 12:00:00.123+00:00'' 10],
               fault = None\<rparr>"

definition revokedDB :: "string \<Rightarrow> DB" where
  "revokedDB revoked = \<lparr>keys = [exKey\<lparr>CreatedAt := ''2021-03-04T12:00:00.123Z'',
                                      RevokedAt := Some revoked\<rparr>],
                       transactions = [], fault = None\<rparr>"



definition badDB :: DB where
  "badDB = \<lparr>keys = [],
            transactions = [exRow ''tx-9'' ''2021-13-04T12:00:00Z'' 5],
            fault = None\<rparr>"

definition sameSecondDB :: DB where
  "sameSecondDB = \<lparr>keys = [exKey\<lparr>ApiKey := ''key-a'', CreatedAt := ''2021-03-04T12:00:00Z''\<rparr>,
                           exKey\<lparr>ApiKey := ''key-b'', CreatedAt := ''2021-03-04T12:00:00.5Z''\<rparr>],
                   transactions = [], fault = None\<rparr>"

definition usageDB :: DB where
  "usageDB = \<lparr>keys = [exKey\<lparr>CreatedAt := ''2021-03-04T12:00:00.123Z''\<rparr>,
                      exKey\<lparr>ApiKey := ''key-2'', CreatedAt := ''2021-03-03T09:30:00Z''\<rparr>,
                      exKey\<lparr>ApiKey := ''key-3'', CreatedAt := ''2021-03-02T09:30:00Z'',
                            RevokedAt := Some ''2021-03-05T00:00:00Z''\<rparr>],
              transactions = [exRow ''tx-a'' ''2021-03-04T12:00:01Z'' 10,
                              (exRow ''tx-r'' ''2021-03-04T12:00:02Z'' 7)\<lparr>t_api_key := ''key-3''\<rparr>,
                              exRow ''tx-b'' ''2021-03-04T12:00:45Z'' 32],
              fault = None\<rparr>"

section \<open>Notions of the statements\<close>



text \<open>The second of the local day of a time, from which its clock fields are cut.\<close>

definition secondOfDay :: "Time \<Rightarrow> int" where
  "secondOfDay t = ((unixNano t + zoneOffset t * 1000000000) div 1000000000) mod 86400"

section \<open>Properties\<close>

subsection \<open>Rows and their identifiers\<close>

lemma filter_unique_id:
  "distinct (map f xs) \<Longrightarrow> r \<in> set xs \<Longrightarrow> filter (\<lambda>t. f t = f r) xs = [r]"
proof (induction xs)
  case Nil
  then show ?case by simp
next
  case (Cons x xs)
  show ?case
  proof (cases "x = r")
    case True
    have "filter (\<lambda>t. f t = f r) xs = []"
      using Cons.prems(1) True by (auto simp: filter_empty_conv image_iff)
    then show ?thesis using True by simp
  next
    case False
    then have "r \<in> set xs" using Cons.prems(2) by simp
    moreover have "f x \<noteq> f r" using Cons.prems(1) \<open>r \<in> set xs\<close> by auto
    ultimately show ?thesis using Cons by simp
  qed
qed

lemma filter_absent: "a \<notin> set (map f xs) \<Longrightarrow> filter (\<lambda>t. f t = a) xs = []"
  by (auto simp: filter_empty_conv)

lemma scan_inserted:
  "scanTransaction \<lparr>t_created_at = c, t_id = TxID tx, t_api_key = TxApiKey tx,
      t_data_bytes = TxDataBytes tx, t_filename = TxFilename tx,
      t_secret = TxSecret tx, t_is_hash = bool2integer (TxIsHash tx)\<rparr>
   = Inr (tx\<lparr>TxCreatedAt := c\<rparr>)"
  by (simp add: scanTransaction_def bool2integer_def)

lemma scanTransactions_Inr:
  "scanTransactions rs = Inr txs \<Longrightarrow> list_all2 (\<lambda>r t. scanTransaction r = Inr t) rs txs"
proof (induction rs arbitrary: txs)
  case Nil
  then show ?case by simp
next
  case (Cons r rs)
  from Cons.prems obtain t ts
    where t: "scanTransaction r = Inr t" and ts: "scanTransactions rs = Inr ts" and txs: "txs = t # ts"
    by (auto split: sum.splits)
  from Cons.IH [OF ts] t txs show ?case by simp
qed

lemma scanTransaction_created: "scanTransaction r = Inr t \<Longrightarrow> TxCreatedAt t = t_created_at r"
  by (auto simp: scanTransaction_def split: if_splits)

lemma scanTransactions_total:
  "\<forall>r \<in> set rs. t_is_hash r = 0 \<or> t_is_hash r = 1 \<Longrightarrow> \<exists>txs. scanTransactions rs = Inr txs"
proof (induction rs)
  case Nil
  then show ?case by simp
next
  case (Cons r rs)
  then obtain ts where "scanTransactions rs = Inr ts" by auto
  moreover from Cons.prems obtain t where "scanTransaction r = Inr t"
    by (auto simp: scanTransaction_def)
  ultimately show ?case by simp
qed




lemma set_orderByDesc: "set (orderByDesc key rows) = set rows"
  by (simp add: orderByDesc_def)

lemma normalize_parsed: "Parse ISO8601Sqlite s = Inr t \<Longrightarrow> normalizeCreatedAt s = Format t ISO8601DBOutput"
  by (simp add: normalizeCreatedAt_def)

subsection \<open>The rendering of a time\<close>

lemma chunks_ISO8601:
  "layoutChunks [] ISO8601 =
     ([([], stdLongYear), (''-'', stdZeroMonth), (''-'', stdZeroDay), (''T'', stdHour),
       ('':'', stdZeroMinute), ('':'', stdZeroSecond), ([], stdFracSecond9 3)], ''Z'')"
  by code_simp

lemma formatCivil_ISO8601:
  "formatCivil c ISO8601 =
     (appendInt (year c) 4 @ ''-'' @ appendInt (month c) 2 @ ''-'' @ appendInt (day c) 2)
     @ (''T'' @ appendInt (hour c) 2 @ '':'' @ appendInt (minute c) 2 @ '':''
        @ appendInt (second c) 2) @ formatNano9 (nanosecond c) 3 @ ''Z''"
  by (simp add: formatCivil_def chunks_ISO8601)

lemma digitChar_inj:
  "0 \<le> a \<Longrightarrow> a < 10 \<Longrightarrow> 0 \<le> b \<Longrightarrow> b < 10 \<Longrightarrow> digitChar a = digitChar b \<Longrightarrow> a = b"
proof -
  assume a: "0 \<le> a" "a < 10" and b: "0 \<le> b" "b < 10" and e: "digitChar a = digitChar b"
  have "(of_char (digitChar a) :: int) = (48 + a) mod 256"
    and "(of_char (digitChar b) :: int) = (48 + b) mod 256"
    by (simp_all add: digitChar_def)
  with e have "(48 + a) mod 256 = (48 + b) mod 256" by simp
  with a b show "a = b" by simp
qed

lemma digits_small: "n < 10 \<Longrightarrow> digits n = [digitChar n]"
  by (simp add: digits.simps)

lemma digits_two: "10 \<le> n \<Longrightarrow> n < 100 \<Longrightarrow> digits n = [digitChar (n div 10), digitChar (n mod 10)]"
  by (subst digits.simps) (simp add: digits_small)

lemma appendInt2:
  "0 \<le> x \<Longrightarrow> x < 100 \<Longrightarrow> appendInt x 2 = [digitChar (x div 10), digitChar (x mod 10)]"
proof -
  assume x: "0 \<le> x" "x < 100"
  show ?thesis
  proof (cases "x < 10")
    case True
    then have "digits \<bar>x\<bar> = [digitChar x]" using x by (simp add: digits_small)
    moreover have "CHR ''0'' = digitChar 0" by code_simp
    ultimately show ?thesis using x True by (simp add: appendInt_def)
  next
    case False
    then have "digits \<bar>x\<bar> = [digitChar (x div 10), digitChar (x mod 10)]"
      using x by (simp add: digits_two)
    then show ?thesis using x by (simp add: appendInt_def)
  qed
qed

lemma appendInt2_inj:
  assumes "0 \<le> x" "x < 100" "0 \<le> y" "y < 100" "appendInt x 2 = appendInt y 2"
  shows "x = y"
proof -
  have "digitChar (x div 10) = digitChar (y div 10)"
    and "digitChar (x mod 10) = digitChar (y mod 10)"
    using assms by (simp_all add: appendInt2)
  moreover have "0 \<le> x div 10" "x div 10 < 10" "0 \<le> y div 10" "y div 10 < 10"
    "0 \<le> x mod 10" "x mod 10 < 10" "0 \<le> y mod 10" "y mod 10 < 10"
    using assms by simp_all
  ultimately have "x div 10 = y div 10" "x mod 10 = y mod 10"
    using digitChar_inj [of "x div 10" "y div 10"]
      digitChar_inj [of "x mod 10" "y mod 10"] by blast+
  then show ?thesis by (metis div_mult_mod_eq)
qed

lemma appendInt2_length: "0 \<le> x \<Longrightarrow> x < 100 \<Longrightarrow> length (appendInt x 2) = 2"
  by (simp add: appendInt2)

lemma civilOf_clock:
  "hour (civilOf t) = secondOfDay t div 3600"
  "minute (civilOf t) = (secondOfDay t mod 3600) div 60"
  "second (civilOf t) = secondOfDay t mod 60"
  "nanosecond (civilOf t) = (unixNano t + zoneOffset t * 1000000000) mod 1000000000"
  by (simp_all add: civilOf_def secondOfDay_def Let_def split: prod.splits)

lemma secondOfDay_range: "0 \<le> secondOfDay t" "secondOfDay t < 86400"
  by (simp_all add: secondOfDay_def)

lemma clock_range:
  "0 \<le> hour (civilOf t)" "hour (civilOf t) < 100"
  "0 \<le> minute (civilOf t)" "minute (civilOf t) < 100"
  "0 \<le> second (civilOf t)" "second (civilOf t) < 100"
  using secondOfDay_range [of t] by (simp_all add: civilOf_clock)

lemma clock_determines_second:
  "secondOfDay t = hour (civilOf t) * 3600 + minute (civilOf t) * 60 + second (civilOf t)"
proof -
  let ?s = "secondOfDay t"
  have a: "?s = ?s div 3600 * 3600 + ?s mod 3600" by simp
  have b: "?s mod 3600 = ?s mod 3600 div 60 * 60 + ?s mod 3600 mod 60" by simp
  have c: "?s mod 3600 mod 60 = ?s mod 60" by (simp add: mod_mod_cancel)
  from a b c show ?thesis unfolding civilOf_clock by linarith
qed

lemma secondOfDay_UTC:
  "secondOfDay t = (secondOfDay (UTC t) + zoneOffset t) mod 86400"
proof -
  have "(unixNano t + zoneOffset t * 1000000000) div 1000000000
        = unixNano t div 1000000000 + zoneOffset t"
    by simp
  then have "secondOfDay t = (unixNano t div 1000000000 + zoneOffset t) mod 86400"
    by (simp only: secondOfDay_def)
  moreover have "secondOfDay (UTC t) = unixNano t div 1000000000 mod 86400"
    by (simp add: secondOfDay_def UTC_def)
  ultimately show ?thesis
    by (simp only: mod_add_left_eq)
qed

lemma nanosecond_UTC: "nanosecond (civilOf (UTC t)) = nanosecond (civilOf t)"
  by (simp add: civilOf_clock UTC_def)

lemma clock_text_inj:
  assumes "''T'' @ appendInt (hour c) 2 @ '':'' @ appendInt (minute c) 2 @ '':'' @ appendInt (second c) 2
         = ''T'' @ appendInt (hour u) 2 @ '':'' @ appendInt (minute u) 2 @ '':'' @ appendInt (second u) 2"
    and "0 \<le> hour c" "hour c < 100" "0 \<le> minute c" "minute c < 100" "0 \<le> second c" "second c < 100"
    and "0 \<le> hour u" "hour u < 100" "0 \<le> minute u" "minute u < 100" "0 \<le> second u" "second u < 100"
  shows "hour c = hour u \<and> minute c = minute u \<and> second c = second u"
proof -
  have "appendInt (hour c) 2 = appendInt (hour u) 2
      \<and> appendInt (minute c) 2 = appendInt (minute u) 2
      \<and> appendInt (second c) 2 = appendInt (second u) 2"
    using assms by (simp add: appendInt2)
  then show ?thesis
    using assms(2-) by (simp add: appendInt2_inj)
qed

subsection \<open>The calendar\<close>









subsection \<open>The order of renderings\<close>

















subsection \<open>C2: a row read back after its insertion\<close>

text \<open>
  C2, as the code has it. After \<^verbatim>\<open>InsertKey\<close> has succeeded, \<^verbatim>\<open>GetKey\<close> on the
  \<^verbatim>\<open>apiKey\<close> returns the key with its \<^verbatim>\<open>apiKey\<close>, \<^verbatim>\<open>privateKey\<close>, \<^verbatim>\<open>publicKey\<close> and
  \<^verbatim>\<open>address\<close>, with \<^verbatim>\<open>createdAt\<close> set by the insert, and with \<^verbatim>\<open>revokedAt\<close> null
  whatever the key held there: the insert writes no \<^verbatim>\<open>revoked_at\<close>. After
  \<^verbatim>\<open>InsertTransaction\<close> has succeeded, \<^verbatim>\<open>GetTransaction\<close> on its id returns that
  transaction with nothing changed but \<^verbatim>\<open>createdAt\<close> (the boolean \<^verbatim>\<open>isHash\<close> comes back
  through its integer column). In both, \<^verbatim>\<open>createdAt\<close> is the clock's time, moved to
  UTC and rendered with the layout \<^verbatim>\<open>2006-01-02T15:04:05.999Z\<close>.
\<close>

theorem insert_then_get:
  "(InsertKey now k db = Inr db' \<longrightarrow>
      GetKey (ApiKey k) db'
        = Inr (k\<lparr>CreatedAt := Format (UTC now) ISO8601, RevokedAt := None\<rparr>))
   \<and> (InsertTransaction now tx db = Inr db'' \<longrightarrow>
      GetTransaction (TxID tx) db'' = Inr (tx\<lparr>TxCreatedAt := Format (UTC now) ISO8601\<rparr>))"
proof (intro conjI impI)
  assume a: "InsertKey now k db = Inr db'"
  then have f: "fault db = None" and fresh: "ApiKey k \<notin> set (map ApiKey (keys db))"
    by (auto simp: InsertKey_def Let_def split: option.splits if_splits)
  have db': "db' = db\<lparr>keys := keys db @
        [\<lparr>ApiKey = ApiKey k, PrivateKey = PrivateKey k, PublicKey = PublicKey k,
          Address = Address k, CreatedAt = Format (UTC now) ISO8601, RevokedAt = None\<rparr>]\<rparr>"
    using a f fresh by (simp add: InsertKey_def Let_def)
  have "filter (\<lambda>x. ApiKey x = ApiKey k) (keys db) = []"
    using fresh by (rule filter_absent)
  then show "GetKey (ApiKey k) db'
        = Inr (k\<lparr>CreatedAt := Format (UTC now) ISO8601, RevokedAt := None\<rparr>)"
    using f by (simp add: GetKey_def db')
next
  assume a: "InsertTransaction now tx db = Inr db''"
  then have f: "fault db = None" and fresh: "TxID tx \<notin> set (map t_id (transactions db))"
    by (auto simp: InsertTransaction_def Let_def split: option.splits if_splits)
  have db'': "db'' = db\<lparr>transactions := transactions db @
        [\<lparr>t_created_at = Format (UTC now) ISO8601, t_id = TxID tx, t_api_key = TxApiKey tx,
          t_data_bytes = TxDataBytes tx, t_filename = TxFilename tx,
          t_secret = TxSecret tx, t_is_hash = bool2integer (TxIsHash tx)\<rparr>]\<rparr>"
    using a f fresh by (simp add: InsertTransaction_def Let_def)
  have "filter (\<lambda>t. t_id t = TxID tx) (transactions db) = []"
    using fresh by (rule filter_absent)
  then show "GetTransaction (TxID tx) db'' = Inr (tx\<lparr>TxCreatedAt := Format (UTC now) ISO8601\<rparr>)"
    using f by (simp add: GetTransaction_def db'' scan_inserted)
qed

text \<open>
  A key passed to \<^verbatim>\<open>InsertKey\<close> with \<^verbatim>\<open>revokedAt\<close> set is inserted, and \<^verbatim>\<open>GetKey\<close> returns
  it with \<^verbatim>\<open>revokedAt\<close> null: a second field in which the key read differs from the
  key inserted.
\<close>

theorem insert_then_get_counterexample:
  "InsertKey exNow (exKey\<lparr>RevokedAt := Some ''2021-03-01T00:00:00Z''\<rparr>) emptyDB = Inr keyDB
   \<and> GetKey ''key-1'' keyDB = Inr (exKey\<lparr>CreatedAt := ''2021-03-04T12:00:00.123Z''\<rparr>)
   \<and> RevokedAt (exKey\<lparr>CreatedAt := ''2021-03-04T12:00:00.123Z''\<rparr>)
       \<noteq> RevokedAt (exKey\<lparr>RevokedAt := Some ''2021-03-01T00:00:00Z''\<rparr>)"
  by code_simp

text \<open>The statement at a key and a transaction inserted into the empty database.\<close>

theorem insert_then_get_witness:
  "InsertKey exNow (exKey\<lparr>RevokedAt := Some ''2021-03-01T00:00:00Z''\<rparr>) emptyDB = Inr keyDB
   \<and> GetKey ''key-1'' keyDB
       = Inr (exKey\<lparr>CreatedAt := ''2021-03-04T12:00:00.123Z'', RevokedAt := None\<rparr>)
   \<and> InsertTransaction exNow exTx emptyDB = Inr txDB
   \<and> GetTransaction ''tx-1'' txDB = Inr (exTx\<lparr>TxCreatedAt := ''2021-03-04T12:00:00.123Z''\<rparr>)"
proof -
  define k where "k = exKey\<lparr>RevokedAt := Some ''2021-03-01T00:00:00Z''\<rparr>"
  have i: "InsertKey exNow k emptyDB = Inr keyDB"
    unfolding k_def by code_simp
  have t: "InsertTransaction exNow exTx emptyDB = Inr txDB"
    by code_simp
  have f: "Format (UTC exNow) ISO8601 = ''2021-03-04T12:00:00.123Z''"
    by code_simp
  have a: "ApiKey k = ''key-1''" "TxID exTx = ''tx-1''"
    "k\<lparr>CreatedAt := ''2021-03-04T12:00:00.123Z'', RevokedAt := None\<rparr>
       = exKey\<lparr>CreatedAt := ''2021-03-04T12:00:00.123Z'', RevokedAt := None\<rparr>"
    by (simp_all add: k_def exKey_def exTx_def)
  from insert_then_get [of exNow k emptyDB keyDB exTx txDB] i t
  have "GetKey (ApiKey k) keyDB
          = Inr (k\<lparr>CreatedAt := Format (UTC exNow) ISO8601, RevokedAt := None\<rparr>)"
    and "GetTransaction (TxID exTx) txDB = Inr (exTx\<lparr>TxCreatedAt := Format (UTC exNow) ISO8601\<rparr>)"
    by blast+
  with i t show ?thesis unfolding f a k_def [symmetric] by (intro conjI)
qed

subsection \<open>C1: what the bulk reads do to a timestamp that parses\<close>

text \<open>
  C1, as the code has it. For each row that \<^verbatim>\<open>GetAllKeys\<close>, \<^verbatim>\<open>GetAllKeysUsage\<close> and
  \<^verbatim>\<open>GetAllTransactions\<close> return, in the order of the query, a stored \<^verbatim>\<open>createdAt\<close>
  that parses with \<^verbatim>\<open>2006-01-02 15:04:05.999+00:00\<close> comes back as that time
  rendered with \<^verbatim>\<open>ISO8601DBOutput\<close>, which is \<^verbatim>\<open>2006-01-02 15:04:05.999Z\<close>: a space
  between date and clock, not the \<^verbatim>\<open>T\<close> of the write layout.
\<close>

theorem bulk_reads_render:
  "(GetAllKeys db = Inr ks \<longrightarrow>
      length ks = length (activeKeys db)
      \<and> (\<forall>i < length ks. \<forall>t. Parse ISO8601Sqlite (CreatedAt (activeKeys db ! i)) = Inr t
            \<longrightarrow> CreatedAt (ks ! i) = Format t ISO8601DBOutput))
   \<and> (GetAllKeysUsage db = Inr us \<longrightarrow>
      (\<exists>rows. keysUsageRows db = Inr rows \<and> length us = length rows
         \<and> (\<forall>i < length us. \<forall>t. Parse ISO8601Sqlite (CreatedAt (rows ! i)) = Inr t
               \<longrightarrow> CreatedAt (us ! i) = Format t ISO8601DBOutput)))
   \<and> (GetAllTransactions now all hoursBack db = Inr txs \<longrightarrow>
      length txs = length (transactionsSince now all hoursBack db)
      \<and> (\<forall>i < length txs. \<forall>t.
            Parse ISO8601Sqlite (t_created_at (transactionsSince now all hoursBack db ! i)) = Inr t
            \<longrightarrow> TxCreatedAt (txs ! i) = Format t ISO8601DBOutput))"
proof (intro conjI impI)
  assume "GetAllKeys db = Inr ks"
  then have ks: "ks = map (\<lambda>k. k\<lparr>CreatedAt := normalizeCreatedAt (CreatedAt k)\<rparr>) (activeKeys db)"
    by (auto simp: GetAllKeys_def split: option.splits)
  show "length ks = length (activeKeys db)" by (simp add: ks)
  show "\<forall>i < length ks. \<forall>t. Parse ISO8601Sqlite (CreatedAt (activeKeys db ! i)) = Inr t
            \<longrightarrow> CreatedAt (ks ! i) = Format t ISO8601DBOutput"
    by (simp add: ks normalize_parsed)
next
  assume "GetAllKeysUsage db = Inr us"
  then obtain rows where rows: "keysUsageRows db = Inr rows"
    and us: "us = map (\<lambda>k. k\<lparr>CreatedAt := normalizeCreatedAt (CreatedAt k)\<rparr>) rows"
    by (auto simp: GetAllKeysUsage_def split: option.splits sum.splits)
  have "length us = length rows" by (simp add: us)
  moreover have "\<forall>i < length us. \<forall>t. Parse ISO8601Sqlite (CreatedAt (rows ! i)) = Inr t
            \<longrightarrow> CreatedAt (us ! i) = Format t ISO8601DBOutput"
    by (simp add: us normalize_parsed)
  ultimately show "\<exists>rows. keysUsageRows db = Inr rows \<and> length us = length rows
         \<and> (\<forall>i < length us. \<forall>t. Parse ISO8601Sqlite (CreatedAt (rows ! i)) = Inr t
               \<longrightarrow> CreatedAt (us ! i) = Format t ISO8601DBOutput)"
    using rows by blast
next
  let ?rows = "transactionsSince now all hoursBack db"
  assume "GetAllTransactions now all hoursBack db = Inr txs"
  then obtain scanned where sc: "scanTransactions ?rows = Inr scanned"
    and txs: "txs = map (\<lambda>t. t\<lparr>TxCreatedAt := normalizeCreatedAt (TxCreatedAt t)\<rparr>) scanned"
    by (auto simp: GetAllTransactions_def split: option.splits sum.splits)
  have l2: "list_all2 (\<lambda>r t. scanTransaction r = Inr t) ?rows scanned"
    using sc by (rule scanTransactions_Inr)
  then have len: "length scanned = length ?rows"
    by (simp add: list_all2_lengthD)
  show "length txs = length ?rows" by (simp add: txs len)
  show "\<forall>i < length txs. \<forall>t. Parse ISO8601Sqlite (t_created_at (?rows ! i)) = Inr t
            \<longrightarrow> TxCreatedAt (txs ! i) = Format t ISO8601DBOutput"
  proof (intro allI impI)
    fix i t
    assume i: "i < length txs" and p: "Parse ISO8601Sqlite (t_created_at (?rows ! i)) = Inr t"
    have i': "i < length scanned" using i by (simp add: txs)
    have "scanTransaction (?rows ! i) = Inr (scanned ! i)"
      using list_all2_nthD2 [OF l2 i'] by simp
    then have "TxCreatedAt (scanned ! i) = t_created_at (?rows ! i)"
      by (rule scanTransaction_created)
    then show "TxCreatedAt (txs ! i) = Format t ISO8601DBOutput"
      using i' p by (simp add: txs normalize_parsed)
  qed
qed

text \<open>
  A key stored as \<^verbatim>\<open>2021-03-04 12:00:00.123+00:00\<close> comes back from \<^verbatim>\<open>GetAllKeys\<close> as
  \<^verbatim>\<open>2021-03-04 12:00:00.123Z\<close>, which is not the rendering of that time in the write
  layout, \<^verbatim>\<open>2021-03-04T12:00:00.123Z\<close>.
\<close>

theorem bulk_reads_render_counterexample:
  "GetAllKeys sqliteDB = Inr [exKey\<lparr>CreatedAt := ''2021-03-04 12:00:00.123Z''\<rparr>]
   \<and> Parse ISO8601Sqlite ''2021-03-04 12:00:00.123+00:00''
       = Inr \<lparr>unixNano = 1614859200123000000, zoneOffset = 0\<rparr>
   \<and> Format \<lparr>unixNano = 1614859200123000000, zoneOffset = 0\<rparr> ISO8601
       = ''2021-03-04T12:00:00.123Z''
   \<and> ''2021-03-04 12:00:00.123Z'' \<noteq> ''2021-03-04T12:00:00.123Z''"
  by code_simp

theorem bulk_reads_render_witness:
  "GetAllKeys sqliteDB = Inr [exKey\<lparr>CreatedAt := ''2021-03-04 12:00:00.123Z''\<rparr>]
   \<and> Parse ISO8601Sqlite (CreatedAt (activeKeys sqliteDB ! 0))
       = Inr \<lparr>unixNano = 1614859200123000000, zoneOffset = 0\<rparr>
   \<and> CreatedAt ([exKey\<lparr>CreatedAt := ''2021-03-04 12:00:00.123Z''\<rparr>] ! 0)
       = Format \<lparr>unixNano = 1614859200123000000, zoneOffset = 0\<rparr> ISO8601DBOutput
   \<and> GetAllKeysUsage sqliteDB
       = Inr [Key.extend (exKey\<lparr>CreatedAt := ''2021-03-04 12:00:00.123Z''\<rparr>) \<lparr>DataBytes = 10\<rparr>]
   \<and> keysUsageRows sqliteDB
       = Inr [Key.extend (exKey\<lparr>CreatedAt := ''2021-03-04 12:00:00.123+00:00''\<rparr>) \<lparr>DataBytes = 10\<rparr>]
   \<and> Parse ISO8601Sqlite
         (CreatedAt ([Key.extend (exKey\<lparr>CreatedAt := ''2021-03-04 12:00:00.123+00:00''\<rparr>)
                        \<lparr>DataBytes = 10\<rparr>] ! 0))
       = Inr \<lparr>unixNano = 1614859200123000000, zoneOffset = 0\<rparr>
   \<and> CreatedAt ([Key.extend (exKey\<lparr>CreatedAt := ''2021-03-04 12:00:00.123Z''\<rparr>)
                    \<lparr>DataBytes = 10\<rparr>] ! 0)
       = Format \<lparr>unixNano = 1614859200123000000, zoneOffset = 0\<rparr> ISO8601DBOutput
   \<and> GetAllTransactions exNow True 0 sqliteDB
       = Inr [\<lparr>TxID = ''tx-1'', TxApiKey = ''key-1'', TxDataBytes = 10, TxFilename = None,
               TxSecret = None, TxIsHash = False, TxCreatedAt = ''2021-03-04 12:00:00.123Z''\<rparr>]
   \<and> Parse ISO8601Sqlite (t_created_at (transactionsSince exNow True 0 sqliteDB ! 0))
       = Inr \<lparr>unixNano = 1614859200123000000, zoneOffset = 0\<rparr>
   \<and> TxCreatedAt ([\<lparr>TxID = ''tx-1'', TxApiKey = ''key-1'', TxDataBytes = 10, TxFilename = None,
               TxSecret = None, TxIsHash = False, TxCreatedAt = ''2021-03-04 12:00:00.123Z''\<rparr>] ! 0)
       = Format \<lparr>unixNano = 1614859200123000000, zoneOffset = 0\<rparr> ISO8601DBOutput
   \<and> Format \<lparr>unixNano = 1614859200123000000, zoneOffset = 0\<rparr> ISO8601DBOutput
       = ''2021-03-04 12:00:00.123Z''"
proof -
  define t0 where "t0 = \<lparr>unixNano = 1614859200123000000, zoneOffset = 0\<rparr>"
  define ks where "ks = [exKey\<lparr>CreatedAt := ''2021-03-04 12:00:00.123Z''\<rparr>]"
  define us where "us = [Key.extend (exKey\<lparr>CreatedAt := ''2021-03-04 12:00:00.123Z''\<rparr>)
                          \<lparr>DataBytes = 10\<rparr>]"
  define txs where "txs = [\<lparr>TxID = ''tx-1'', TxApiKey = ''key-1'', TxDataBytes = 10,
      TxFilename = None, TxSecret = None, TxIsHash = False,
      TxCreatedAt = ''2021-03-04 12:00:00.123Z''\<rparr>]"
  have g: "GetAllKeys sqliteDB = Inr ks" "GetAllKeysUsage sqliteDB = Inr us"
    "GetAllTransactions exNow True 0 sqliteDB = Inr txs"
    unfolding ks_def us_def txs_def by code_simp+
  define rows where "rows = [Key.extend (exKey\<lparr>CreatedAt := ''2021-03-04 12:00:00.123+00:00''\<rparr>)
                              \<lparr>DataBytes = 10\<rparr>]"
  have q: "keysUsageRows sqliteDB = Inr rows"
    unfolding rows_def by code_simp
  have p: "Parse ISO8601Sqlite (CreatedAt (activeKeys sqliteDB ! 0)) = Inr t0"
    "Parse ISO8601Sqlite (CreatedAt (rows ! 0)) = Inr t0"
    "Parse ISO8601Sqlite (t_created_at (transactionsSince exNow True 0 sqliteDB ! 0)) = Inr t0"
    unfolding t0_def rows_def by code_simp+
  have l: "0 < length ks" "0 < length us" "0 < length txs"
    by (simp_all add: ks_def us_def txs_def)
  have f: "Format t0 ISO8601DBOutput = ''2021-03-04 12:00:00.123Z''"
    unfolding t0_def by code_simp
  note r = bulk_reads_render [of sqliteDB ks us exNow True 0 txs]
  have "CreatedAt (ks ! 0) = Format t0 ISO8601DBOutput"
    using r [THEN conjunct1, THEN mp, OF g(1), THEN conjunct2, THEN spec, THEN mp, OF l(1),
        THEN spec, THEN mp, OF p(1)] .
  moreover have "CreatedAt (us ! 0) = Format t0 ISO8601DBOutput"
  proof -
    from r [THEN conjunct2, THEN conjunct1, THEN mp, OF g(2)] obtain rows'
      where "keysUsageRows sqliteDB = Inr rows'"
        and a: "\<forall>i < length us. \<forall>t. Parse ISO8601Sqlite (CreatedAt (rows' ! i)) = Inr t
               \<longrightarrow> CreatedAt (us ! i) = Format t ISO8601DBOutput"
      by blast
    with q have "rows' = rows" by simp
    with a [THEN spec, THEN mp, OF l(2), THEN spec, of t0] p(2) show ?thesis by simp
  qed
  moreover have "TxCreatedAt (txs ! 0) = Format t0 ISO8601DBOutput"
    using r [THEN conjunct2, THEN conjunct2, THEN mp, OF g(3), THEN conjunct2, THEN spec,
        THEN mp, OF l(3), THEN spec, THEN mp, OF p(3)] .
  ultimately show ?thesis
    using g p q f unfolding t0_def ks_def us_def txs_def rows_def by (intro conjI)
qed

subsection \<open>C7: timestamps that do not parse\<close>

lemma parseBuckets_Inl:
  "\<exists>b \<in> set bs. isl (Parse fmt (fst b)) \<Longrightarrow>
     \<exists>e. parseBuckets fmt bs = Inl e \<and> (\<exists>b \<in> set bs. Parse fmt (fst b) = Inl e)"
proof (induction bs)
  case Nil
  then show ?case by simp
next
  case (Cons b bs)
  obtain ts n bytes where b: "b = (ts, n, bytes)" by (cases b)
  show ?case
  proof (cases "Parse fmt ts")
    case (Inl e)
    then show ?thesis using b by auto
  next
    case (Inr t)
    then have "\<exists>b \<in> set bs. isl (Parse fmt (fst b))" using Cons.prems b by auto
    from Cons.IH [OF this] obtain e where "parseBuckets fmt bs = Inl e"
      and "\<exists>b \<in> set bs. Parse fmt (fst b) = Inl e" by blast
    then show ?thesis using Inr b by auto
  qed
qed

text \<open>
  C7. While the engine answers, the three bulk reads succeed and return a row whose
  stored \<^verbatim>\<open>createdAt\<close> does not parse with \<^verbatim>\<open>ISO8601Sqlite\<close> as it is stored
  (\<^verbatim>\<open>GetAllKeysUsage\<close> given the rows of its query, that is, sums within 64 bits;
  \<^verbatim>\<open>GetAllTransactions\<close> given that every \<^verbatim>\<open>is_hash\<close> is 0 or 1, so that the rows
  scan). In \<^verbatim>\<open>GetTransactionInfo\<close>, one bucket among the rows of the query whose text
  does not parse with the format of the granularity makes the call return the
  parse error of such a bucket, and no result.
\<close>

theorem parse_failure_handling:
  "fault db = None \<longrightarrow>
     (\<exists>ks. GetAllKeys db = Inr ks \<and> length ks = length (activeKeys db)
        \<and> (\<forall>i < length ks. isl (Parse ISO8601Sqlite (CreatedAt (activeKeys db ! i)))
              \<longrightarrow> ks ! i = activeKeys db ! i))
   \<and> (\<forall>rows. keysUsageRows db = Inr rows \<longrightarrow>
        (\<exists>us. GetAllKeysUsage db = Inr us \<and> length us = length rows
           \<and> (\<forall>i < length us. isl (Parse ISO8601Sqlite (CreatedAt (rows ! i)))
                 \<longrightarrow> us ! i = rows ! i)))
   \<and> ((\<forall>r \<in> set (transactions db). t_is_hash r = 0 \<or> t_is_hash r = 1) \<longrightarrow>
        (\<exists>txs. GetAllTransactions now all hoursBack db = Inr txs
           \<and> length txs = length (transactionsSince now all hoursBack db)
           \<and> (\<forall>i < length txs.
                 isl (Parse ISO8601Sqlite (t_created_at (transactionsSince now all hoursBack db ! i)))
                 \<longrightarrow> scanTransaction (transactionsSince now all hoursBack db ! i) = Inr (txs ! i))))
   \<and> (\<forall>bs. bucketRows (fst (granularitySecondsToPositionAndFormat g))
                (Format from ISO8601) (Format to ISO8601) db = Inr bs
             \<and> (\<exists>b \<in> set bs. isl (Parse (snd (granularitySecondsToPositionAndFormat g)) (fst b)))
          \<longrightarrow>
        (\<exists>e. GetTransactionInfo from to g db = Inl e
           \<and> (\<exists>b \<in> set bs. Parse (snd (granularitySecondsToPositionAndFormat g)) (fst b) = Inl e)))"
proof (intro impI conjI allI)
  assume f: "fault db = None"
  have n: "isl (Parse ISO8601Sqlite s) \<Longrightarrow> normalizeCreatedAt s = s" for s
    by (cases "Parse ISO8601Sqlite s") (simp_all add: normalizeCreatedAt_def)
  show "\<exists>ks. GetAllKeys db = Inr ks \<and> length ks = length (activeKeys db)
        \<and> (\<forall>i < length ks. isl (Parse ISO8601Sqlite (CreatedAt (activeKeys db ! i)))
              \<longrightarrow> ks ! i = activeKeys db ! i)"
    using f by (simp add: GetAllKeys_def n)
  {
    fix rows
    assume "keysUsageRows db = Inr rows"
    then show "\<exists>us. GetAllKeysUsage db = Inr us \<and> length us = length rows
        \<and> (\<forall>i < length us. isl (Parse ISO8601Sqlite (CreatedAt (rows ! i)))
              \<longrightarrow> us ! i = rows ! i)"
      using f by (simp add: GetAllKeysUsage_def n)
  }
  {
    let ?rows = "transactionsSince now all hoursBack db"
    assume ok: "\<forall>r \<in> set (transactions db). t_is_hash r = 0 \<or> t_is_hash r = 1"
    have "set ?rows \<subseteq> set (transactions db)"
      by (auto simp: transactionsSince_def Let_def set_orderByDesc)
    with ok have "\<forall>r \<in> set ?rows. t_is_hash r = 0 \<or> t_is_hash r = 1" by blast
    then obtain scanned where sc: "scanTransactions ?rows = Inr scanned"
      using scanTransactions_total by blast
    have l2: "list_all2 (\<lambda>r t. scanTransaction r = Inr t) ?rows scanned"
      using sc by (rule scanTransactions_Inr)
    then have len: "length scanned = length ?rows"
      by (simp add: list_all2_lengthD)
    let ?txs = "map (\<lambda>t. t\<lparr>TxCreatedAt := normalizeCreatedAt (TxCreatedAt t)\<rparr>) scanned"
    have g: "GetAllTransactions now all hoursBack db = Inr ?txs"
      using f sc by (simp add: GetAllTransactions_def)
    have "\<forall>i < length ?txs. isl (Parse ISO8601Sqlite (t_created_at (?rows ! i)))
                 \<longrightarrow> scanTransaction (?rows ! i) = Inr (?txs ! i)"
    proof (intro allI impI)
      fix i
      assume i: "i < length ?txs" and p: "isl (Parse ISO8601Sqlite (t_created_at (?rows ! i)))"
      have i': "i < length scanned" using i by simp
      have s: "scanTransaction (?rows ! i) = Inr (scanned ! i)"
        using list_all2_nthD2 [OF l2 i'] by simp
      from s have "TxCreatedAt (scanned ! i) = t_created_at (?rows ! i)"
        by (rule scanTransaction_created)
      then have "normalizeCreatedAt (TxCreatedAt (scanned ! i)) = TxCreatedAt (scanned ! i)"
        using p by (simp add: n)
      then show "scanTransaction (?rows ! i) = Inr (?txs ! i)"
        using s i' by simp
    qed
    with g len show "\<exists>txs. GetAllTransactions now all hoursBack db = Inr txs
           \<and> length txs = length ?rows
           \<and> (\<forall>i < length txs. isl (Parse ISO8601Sqlite (t_created_at (?rows ! i)))
                 \<longrightarrow> scanTransaction (?rows ! i) = Inr (txs ! i))"
      by (intro exI [of _ ?txs]) simp
  }
  {
    fix bs
    let ?fmt = "snd (granularitySecondsToPositionAndFormat g)"
    assume a: "bucketRows (fst (granularitySecondsToPositionAndFormat g))
                (Format from ISO8601) (Format to ISO8601) db = Inr bs
             \<and> (\<exists>b \<in> set bs. isl (Parse ?fmt (fst b)))"
    then have "\<exists>e. parseBuckets ?fmt bs = Inl e \<and> (\<exists>b \<in> set bs. Parse ?fmt (fst b) = Inl e)"
      by (intro parseBuckets_Inl) simp
    moreover have "GetTransactionInfo from to g db = parseBuckets ?fmt bs"
      using f a by (cases "granularitySecondsToPositionAndFormat g") (simp add: GetTransactionInfo_def)
    ultimately show "\<exists>e. GetTransactionInfo from to g db = Inl e
           \<and> (\<exists>b \<in> set bs. Parse ?fmt (fst b) = Inl e)"
      by simp
  }
qed

theorem parse_failure_handling_witness:
  "fault keyDB = None \<and> fault txDB = None \<and> fault badDB = None
   \<and> isl (Parse ISO8601Sqlite ''2021-03-04T12:00:00.123Z'')
   \<and> (\<exists>ks. GetAllKeys keyDB = Inr ks \<and> length ks = length (activeKeys keyDB)
        \<and> (\<forall>i < length ks. isl (Parse ISO8601Sqlite (CreatedAt (activeKeys keyDB ! i)))
              \<longrightarrow> ks ! i = activeKeys keyDB ! i))
   \<and> GetAllKeys keyDB = Inr [exKey\<lparr>CreatedAt := ''2021-03-04T12:00:00.123Z''\<rparr>]
   \<and> keysUsageRows keyDB
       = Inr [Key.extend (exKey\<lparr>CreatedAt := ''2021-03-04T12:00:00.123Z''\<rparr>) \<lparr>DataBytes = 0\<rparr>]
   \<and> (\<exists>us. GetAllKeysUsage keyDB = Inr us
        \<and> length us = length [Key.extend (exKey\<lparr>CreatedAt := ''2021-03-04T12:00:00.123Z''\<rparr>)
                                 \<lparr>DataBytes = 0\<rparr>]
        \<and> (\<forall>i < length us.
              isl (Parse ISO8601Sqlite
                    (CreatedAt ([Key.extend (exKey\<lparr>CreatedAt := ''2021-03-04T12:00:00.123Z''\<rparr>)
                                   \<lparr>DataBytes = 0\<rparr>] ! i)))
              \<longrightarrow> us ! i = [Key.extend (exKey\<lparr>CreatedAt := ''2021-03-04T12:00:00.123Z''\<rparr>)
                              \<lparr>DataBytes = 0\<rparr>] ! i))
   \<and> GetAllKeysUsage keyDB
       = Inr [Key.extend (exKey\<lparr>CreatedAt := ''2021-03-04T12:00:00.123Z''\<rparr>) \<lparr>DataBytes = 0\<rparr>]
   \<and> list_all (\<lambda>r. t_is_hash r = 0 \<or> t_is_hash r = 1) (transactions txDB)
   \<and> (\<exists>txs. GetAllTransactions exNow True 0 txDB = Inr txs
           \<and> length txs = length (transactionsSince exNow True 0 txDB)
           \<and> (\<forall>i < length txs.
                 isl (Parse ISO8601Sqlite (t_created_at (transactionsSince exNow True 0 txDB ! i)))
                 \<longrightarrow> scanTransaction (transactionsSince exNow True 0 txDB ! i) = Inr (txs ! i)))
   \<and> GetAllTransactions exNow True 0 txDB
       = Inr [exTx\<lparr>TxCreatedAt := ''2021-03-04T12:00:00.123Z''\<rparr>]
   \<and> bucketRows (fst (granularitySecondsToPositionAndFormat Minute))
         (Format exSince ISO8601) (Format exNextYear ISO8601) badDB
       = Inr [(''2021-13-04T12:00'', 1, 5)]
   \<and> (\<exists>b \<in> set [(''2021-13-04T12:00'', 1 :: int, 5 :: int)].
          isl (Parse (snd (granularitySecondsToPositionAndFormat Minute)) (fst b)))
   \<and> (\<exists>e. GetTransactionInfo exSince exNextYear Minute badDB = Inl e
           \<and> (\<exists>b \<in> set [(''2021-13-04T12:00'', 1 :: int, 5 :: int)].
                 Parse (snd (granularitySecondsToPositionAndFormat Minute)) (fst b) = Inl e))
   \<and> GetTransactionInfo exSince exNextYear Minute badDB = Inl (ParseError ''month out of range'')"
proof -
  have f: "fault keyDB = None" "fault txDB = None" "fault badDB = None" by code_simp+
  have p: "isl (Parse ISO8601Sqlite ''2021-03-04T12:00:00.123Z'')" by code_simp
  have g: "GetAllKeys keyDB = Inr [exKey\<lparr>CreatedAt := ''2021-03-04T12:00:00.123Z''\<rparr>]"
    "GetAllKeysUsage keyDB
       = Inr [Key.extend (exKey\<lparr>CreatedAt := ''2021-03-04T12:00:00.123Z''\<rparr>) \<lparr>DataBytes = 0\<rparr>]"
    "GetAllTransactions exNow True 0 txDB
       = Inr [exTx\<lparr>TxCreatedAt := ''2021-03-04T12:00:00.123Z''\<rparr>]"
    by code_simp+
  have h: "list_all (\<lambda>r. t_is_hash r = 0 \<or> t_is_hash r = 1) (transactions txDB)"
    by code_simp
  then have h': "\<forall>r \<in> set (transactions txDB). t_is_hash r = 0 \<or> t_is_hash r = 1"
    by (simp only: list_all_iff)
  have u: "keysUsageRows keyDB
       = Inr [Key.extend (exKey\<lparr>CreatedAt := ''2021-03-04T12:00:00.123Z''\<rparr>) \<lparr>DataBytes = 0\<rparr>]"
    by code_simp
  have r: "bucketRows (fst (granularitySecondsToPositionAndFormat Minute))
         (Format exSince ISO8601) (Format exNextYear ISO8601) badDB
       = Inr [(''2021-13-04T12:00'', 1, 5)]"
    by code_simp
  have b: "\<exists>b \<in> set [(''2021-13-04T12:00'', 1 :: int, 5 :: int)].
          isl (Parse (snd (granularitySecondsToPositionAndFormat Minute)) (fst b))"
    by code_simp
  have i: "GetTransactionInfo exSince exNextYear Minute badDB = Inl (ParseError ''month out of range'')"
    by code_simp
  note parse_failure_handling [of keyDB, THEN mp, OF f(1), THEN conjunct1]
    parse_failure_handling [of keyDB, THEN mp, OF f(1), THEN conjunct2, THEN conjunct1,
      THEN spec, THEN mp, OF u]
    parse_failure_handling [of txDB exNow True 0, THEN mp, OF f(2),
      THEN conjunct2, THEN conjunct2, THEN conjunct1, THEN mp, OF h']
    parse_failure_handling [of badDB _ _ _ Minute exSince exNextYear, THEN mp, OF f(3),
      THEN conjunct2, THEN conjunct2, THEN conjunct2, THEN spec, THEN mp, OF conjI [OF r b]]
  with f p g h u r b i show ?thesis by (intro conjI)
qed

subsection \<open>C8: a transaction that is not there\<close>

text \<open>
  C8. While the engine answers, \<^verbatim>\<open>GetTransaction\<close> on an id that no row has returns
  \<^verbatim>\<open>sql.ErrNoRows\<close>, which is neither an engine error nor a parse error; on the id of
  a row (ids being unique) it returns that row as a transaction.
\<close>

theorem get_transaction_not_found:
  "fault db = None \<Longrightarrow>
     (txid \<notin> set (map t_id (transactions db)) \<longrightarrow> GetTransaction txid db = Inl ErrNoRows)
     \<and> (distinct (map t_id (transactions db)) \<and> r \<in> set (transactions db)
           \<and> t_id r = txid \<and> scanTransaction r = Inr tx \<longrightarrow> GetTransaction txid db = Inr tx)
     \<and> ErrNoRows \<noteq> EngineError m \<and> ErrNoRows \<noteq> ParseError m"
proof (intro impI conjI)
  assume f: "fault db = None"
  {
    assume "txid \<notin> set (map t_id (transactions db))"
    then have "filter (\<lambda>t. t_id t = txid) (transactions db) = []"
      by (rule filter_absent)
    then show "GetTransaction txid db = Inl ErrNoRows"
      using f by (simp add: GetTransaction_def)
  }
  {
    assume a: "distinct (map t_id (transactions db)) \<and> r \<in> set (transactions db)
           \<and> t_id r = txid \<and> scanTransaction r = Inr tx"
    then have "filter (\<lambda>t. t_id t = txid) (transactions db) = [r]"
      using filter_unique_id [of t_id "transactions db" r] by auto
    then show "GetTransaction txid db = Inr tx"
      using f a by (auto simp: GetTransaction_def)
  }
qed simp_all

theorem get_transaction_not_found_witness:
  "fault txDB = None \<and> ''tx-0'' \<notin> set (map t_id (transactions txDB))
   \<and> GetTransaction ''tx-0'' txDB = Inl ErrNoRows
   \<and> distinct (map t_id (transactions txDB))
   \<and> GetTransaction ''tx-1'' txDB = Inr (exTx\<lparr>TxCreatedAt := ''2021-03-04T12:00:00.123Z''\<rparr>)"
proof -
  define r where "r = \<lparr>t_created_at = ''2021-03-04T12:00:00.123Z'', t_id = ''tx-1'',
             t_api_key = ''key-1'', t_data_bytes = 10, t_filename = Some ''a.txt'',
             t_secret = None, t_is_hash = 1\<rparr>"
  have f: "fault txDB = None" by code_simp
  have h0: "''tx-0'' \<notin> set (map t_id (transactions txDB))" by code_simp
  have h1: "distinct (map t_id (transactions txDB)) \<and> r \<in> set (transactions txDB)
      \<and> t_id r = ''tx-1''
      \<and> scanTransaction r = Inr (exTx\<lparr>TxCreatedAt := ''2021-03-04T12:00:00.123Z''\<rparr>)"
    unfolding r_def by code_simp
  have g0: "GetTransaction ''tx-0'' txDB = Inl ErrNoRows"
    using get_transaction_not_found [OF f, of "''tx-0''"] h0 by simp
  have g1: "GetTransaction ''tx-1'' txDB = Inr (exTx\<lparr>TxCreatedAt := ''2021-03-04T12:00:00.123Z''\<rparr>)"
    using get_transaction_not_found [OF f, of "''tx-1''" r] h1 by simp
  from f h0 g0 h1 g1 show ?thesis by simp
qed

subsection \<open>C9: revoking a key twice\<close>

lemma revoke_rows:
  assumes "k \<in> set (map (\<lambda>k. if ApiKey k = a then k\<lparr>RevokedAt := Some s\<rparr> else k) ks)"
    and "ApiKey k = a"
  shows "RevokedAt k = Some s"
proof -
  from assms(1) obtain k0
    where k: "k = (if ApiKey k0 = a then k0\<lparr>RevokedAt := Some s\<rparr> else k0)"
    unfolding set_map by blast
  show ?thesis
  proof (cases "ApiKey k0 = a")
    case True
    then show ?thesis using k by simp
  next
    case False
    then show ?thesis using k assms(2) by simp
  qed
qed

lemma revoke_keeps_ApiKey:
  "map ApiKey (map (\<lambda>k. if ApiKey k = a then k\<lparr>RevokedAt := Some s\<rparr> else k) ks) = map ApiKey ks"
  by (induction ks) simp_all

lemma revoke_again:
  "map (\<lambda>k. if ApiKey k = a then k\<lparr>RevokedAt := Some s\<rparr> else k)
     (map (\<lambda>k. if ApiKey k = a then k\<lparr>RevokedAt := Some s\<rparr> else k) ks)
   = map (\<lambda>k. if ApiKey k = a then k\<lparr>RevokedAt := Some s\<rparr> else k) ks"
  by (induction ks) simp_all

text \<open>
  C9, as the code has it. While the engine answers, \<^verbatim>\<open>DeactivateKey\<close> succeeds on a
  key whether or not it is revoked already, and a second call succeeds as well: it
  leaves the same keys, the key revoked, and \<^verbatim>\<open>revokedAt\<close> set to the rendering of
  the clock at the second call. That is the value of the first call when the two
  readings of the clock render the same, and then the second call changes nothing.
\<close>

theorem deactivate_twice:
  "fault db = None \<Longrightarrow>
     \<exists>db1 db2. DeactivateKey now1 a db = Inr db1 \<and> DeactivateKey now2 a db1 = Inr db2
        \<and> map ApiKey (keys db2) = map ApiKey (keys db)
        \<and> (\<forall>k \<in> set (keys db2). ApiKey k = a \<longrightarrow> RevokedAt k = Some (Format now2 ISO8601))
        \<and> (Format now2 ISO8601 = Format now1 ISO8601 \<longrightarrow> db2 = db1)"
proof -
  assume f: "fault db = None"
  define db1 where
    "db1 = db\<lparr>keys := map (\<lambda>k. if ApiKey k = a then k\<lparr>RevokedAt := Some (Format now1 ISO8601)\<rparr> else k) (keys db)\<rparr>"
  define db2 where
    "db2 = db1\<lparr>keys := map (\<lambda>k. if ApiKey k = a then k\<lparr>RevokedAt := Some (Format now2 ISO8601)\<rparr> else k) (keys db1)\<rparr>"
  have 1: "DeactivateKey now1 a db = Inr db1"
    using f by (simp add: DeactivateKey_def db1_def)
  have 2: "DeactivateKey now2 a db1 = Inr db2"
    using f by (simp add: DeactivateKey_def db2_def db1_def)
  have 3: "map ApiKey (keys db2) = map ApiKey (keys db)"
    by (simp add: db2_def db1_def revoke_keeps_ApiKey)
  have k2: "keys db2 = map (\<lambda>k. if ApiKey k = a then k\<lparr>RevokedAt := Some (Format now2 ISO8601)\<rparr> else k) (keys db1)"
    by (simp add: db2_def)
  have 4: "\<forall>k \<in> set (keys db2). ApiKey k = a \<longrightarrow> RevokedAt k = Some (Format now2 ISO8601)"
    unfolding k2 by (intro ballI impI) (rule revoke_rows)
  have 5: "Format now2 ISO8601 = Format now1 ISO8601 \<longrightarrow> db2 = db1"
    by (simp add: db2_def db1_def revoke_again)
  from 1 2 3 4 5 show ?thesis
    by (intro exI [of _ db1] exI [of _ db2] conjI)
qed

text \<open>
  Revoked at 13:00:00.123 and again at 13:01:00 by the clock, the key ends with the
  second \<^verbatim>\<open>revokedAt\<close>, not with the first.
\<close>

theorem deactivate_twice_counterexample:
  "DeactivateKey exNow ''key-1'' keyDB = Inr (revokedDB ''2021-03-04T13:00:00.123Z'')
   \<and> DeactivateKey exLater ''key-1'' (revokedDB ''2021-03-04T13:00:00.123Z'')
       = Inr (revokedDB ''2021-03-04T13:01:00Z'')
   \<and> map RevokedAt (keys (revokedDB ''2021-03-04T13:01:00Z''))
       \<noteq> map RevokedAt (keys (revokedDB ''2021-03-04T13:00:00.123Z''))"
  by code_simp

theorem deactivate_twice_witness:
  "fault keyDB = None
   \<and> (\<exists>db1 db2. DeactivateKey exNow ''key-1'' keyDB = Inr db1
         \<and> DeactivateKey exLater ''key-1'' db1 = Inr db2
         \<and> map ApiKey (keys db2) = map ApiKey (keys keyDB)
         \<and> (\<forall>k \<in> set (keys db2). ApiKey k = ''key-1'' \<longrightarrow> RevokedAt k = Some (Format exLater ISO8601))
         \<and> (Format exLater ISO8601 = Format exNow ISO8601 \<longrightarrow> db2 = db1))
   \<and> Format exNow ISO8601 = ''2021-03-04T13:00:00.123Z''
   \<and> Format exLater ISO8601 = ''2021-03-04T13:01:00Z''"
proof -
  have h: "fault keyDB = None" by code_simp
  have f: "Format exNow ISO8601 = ''2021-03-04T13:00:00.123Z''"
    "Format exLater ISO8601 = ''2021-03-04T13:01:00Z''" by code_simp+
  note deactivate_twice [OF h, of exNow "''key-1''" exLater]
  with h f show ?thesis by (intro conjI)
qed

subsection \<open>C4: the text of a bucket\<close>

lemma sql_substr_prefix: "0 \<le> n \<Longrightarrow> sql_substr s 0 n = take (nat (n - 1)) s"
  by (simp add: sql_substr_def Let_def)

text \<open>
  C4, as the code has it. \<^verbatim>\<open>granularitySecondsToPositionAndFormat\<close> gives 20, 17, 14
  and 11 with the formats to the second, to the minute, to the hour and of the date
  alone; every granularity other than none, minute and hour gets the 11 of the day.
  The number goes to \<^verbatim>\<open>SUBSTR(created_at, 0, n)\<close>, which keeps the first \<open>n - 1\<close>
  characters: 19, 16, 13 and 10, the lengths of the four formats.
\<close>

theorem bucket_truncation:
  "sql_substr s 0 (fst (granularitySecondsToPositionAndFormat g)) =
     take (case g of GranularityNone \<Rightarrow> 19 | Minute \<Rightarrow> 16 | Hour \<Rightarrow> 13 | _ \<Rightarrow> 10) s
   \<and> granularitySecondsToPositionAndFormat GranularityNone = (20, ''2006-01-02T15:04:05'')
   \<and> granularitySecondsToPositionAndFormat Minute = (17, ''2006-01-02T15:04'')
   \<and> granularitySecondsToPositionAndFormat Hour = (14, ''2006-01-02T15'')
   \<and> (g \<noteq> GranularityNone \<and> g \<noteq> Minute \<and> g \<noteq> Hour \<longrightarrow>
        granularitySecondsToPositionAndFormat g = (11, ''2006-01-02''))"
  by (cases g) (simp_all add: sql_substr_prefix)

text \<open>
  At granularity none the bucket of \<^verbatim>\<open>2021-03-04T12:00:01.000Z\<close> has 19 characters, not
  20, and parses; its first 20 characters do not parse with the format.
\<close>

theorem bucket_truncation_counterexample:
  "sql_substr ''2021-03-04T12:00:01.000Z'' 0
       (fst (granularitySecondsToPositionAndFormat GranularityNone)) = ''2021-03-04T12:00:01''
   \<and> length ''2021-03-04T12:00:01'' \<noteq> 20
   \<and> Parse (snd (granularitySecondsToPositionAndFormat GranularityNone)) ''2021-03-04T12:00:01''
       = Inr \<lparr>unixNano = 1614859201000000000, zoneOffset = 0\<rparr>
   \<and> Parse (snd (granularitySecondsToPositionAndFormat GranularityNone))
         (take 20 ''2021-03-04T12:00:01.000Z'') = Inl (ParseError ''extra text'')"
  by code_simp

theorem bucket_truncation_witness:
  "Other 7 \<noteq> GranularityNone \<and> Other 7 \<noteq> Minute \<and> Other 7 \<noteq> Hour
   \<and> granularitySecondsToPositionAndFormat (Other 7) = (11, ''2006-01-02'')
   \<and> sql_substr ''2021-03-04T12:00:01.000Z'' 0 (fst (granularitySecondsToPositionAndFormat (Other 7)))
       = ''2021-03-04''"
  using bucket_truncation [of "''2021-03-04T12:00:01.000Z''" "Other 7"] by simp

subsection \<open>C3: the buckets of \<^verbatim>\<open>GetTransactionInfo\<close>\<close>










subsection \<open>C5: usage by key\<close>

text \<open>
  C5 at one input. Two keys are inserted within one second: \<^verbatim>\<open>key-a\<close> at
  2021-03-04T12:00:00Z and \<^verbatim>\<open>key-b\<close> half a second later. The layout \<^verbatim>\<open>.999\<close> drops
  the zeros that end a fraction, and the fraction with them when it is zero, so the
  rows are stored as \<^verbatim>\<open>2021-03-04T12:00:00Z\<close> and \<^verbatim>\<open>2021-03-04T12:00:00.5Z\<close>.
  \<^verbatim>\<open>ORDER BY k.created_at\<close> compares these texts, and \<^verbatim>\<open>.\<close> sorts before \<^verbatim>\<open>Z\<close>:
  \<^verbatim>\<open>GetAllKeysUsage\<close> returns \<^verbatim>\<open>key-b\<close>, the key created later, in front of \<^verbatim>\<open>key-a\<close>.
\<close>

theorem keys_usage_same_second:
  "InsertKey exSince (exKey\<lparr>ApiKey := ''key-a''\<rparr>) emptyDB
     = Inr \<lparr>keys = [exKey\<lparr>ApiKey := ''key-a'', CreatedAt := ''2021-03-04T12:00:00Z''\<rparr>],
            transactions = [], fault = None\<rparr>
   \<and> InsertKey exHalfSecond (exKey\<lparr>ApiKey := ''key-b''\<rparr>)
        \<lparr>keys = [exKey\<lparr>ApiKey := ''key-a'', CreatedAt := ''2021-03-04T12:00:00Z''\<rparr>],
         transactions = [], fault = None\<rparr>
     = Inr sameSecondDB
   \<and> unixNano exSince < unixNano exHalfSecond
   \<and> GetAllKeysUsage sameSecondDB
     = Inr [Key.extend (exKey\<lparr>ApiKey := ''key-b'', CreatedAt := ''2021-03-04T12:00:00.5Z''\<rparr>)
              \<lparr>DataBytes = 0\<rparr>,
            Key.extend (exKey\<lparr>ApiKey := ''key-a'', CreatedAt := ''2021-03-04T12:00:00Z''\<rparr>)
              \<lparr>DataBytes = 0\<rparr>]"
  by code_simp

text \<open>
  Of three keys, one revoked, with transactions of 10 and 32 bytes for the first
  and of 7 bytes for the revoked one: an entry for each of the two active keys, the
  one without transactions with 0 bytes, the older one first.
\<close>

lemma keys_usage_example:
  "GetAllKeysUsage usageDB
     = Inr [Key.extend (exKey\<lparr>ApiKey := ''key-2'', CreatedAt := ''2021-03-03T09:30:00Z''\<rparr>)
              \<lparr>DataBytes = 0\<rparr>,
            Key.extend (exKey\<lparr>CreatedAt := ''2021-03-04T12:00:00.123Z''\<rparr>) \<lparr>DataBytes = 42\<rparr>]
   \<and> map RevokedAt (keys usageDB) = [None, None, Some ''2021-03-05T00:00:00Z'']"
  by code_simp

subsection \<open>C10: the zone of \<^verbatim>\<open>revokedAt\<close>\<close>

lemma local_rendering_differs:
  assumes off: "zoneOffset now mod 86400 \<noteq> 0"
  shows "Format now ISO8601 \<noteq> Format (UTC now) ISO8601"
proof
  assume e: "Format now ISO8601 = Format (UTC now) ISO8601"
  define date where
    "date = (\<lambda>c :: civil. appendInt (year c) 4 @ ''-'' @ appendInt (month c) 2 @ ''-'' @ appendInt (day c) 2)"
  define clock where
    "clock = (\<lambda>c :: civil. ''T'' @ appendInt (hour c) 2 @ '':'' @ appendInt (minute c) 2 @ '':''
        @ appendInt (second c) 2)"
  define frac where "frac = (\<lambda>c :: civil. formatNano9 (nanosecond c) 3 @ ''Z'')"
  have fmt: "Format t ISO8601 = (date (civilOf t) @ clock (civilOf t)) @ frac (civilOf t)" for t
    by (simp add: Format_def formatCivil_ISO8601 date_def clock_def frac_def)
  have len: "length (clock (civilOf t)) = 9" for t
    by (simp add: clock_def appendInt2_length clock_range)
  have tl: "frac (civilOf now) = frac (civilOf (UTC now))"
    by (simp add: frac_def nanosecond_UTC)
  from e have "(date (civilOf now) @ clock (civilOf now)) @ frac (civilOf (UTC now))
             = (date (civilOf (UTC now)) @ clock (civilOf (UTC now))) @ frac (civilOf (UTC now))"
    by (simp only: fmt tl)
  then have "date (civilOf now) @ clock (civilOf now)
           = date (civilOf (UTC now)) @ clock (civilOf (UTC now))"
    by (simp only: append_same_eq)
  moreover have "length (clock (civilOf now)) = length (clock (civilOf (UTC now)))"
    by (simp only: len)
  ultimately have "clock (civilOf now) = clock (civilOf (UTC now))"
    by (metis append_eq_append_conv)
  then have "hour (civilOf now) = hour (civilOf (UTC now))
      \<and> minute (civilOf now) = minute (civilOf (UTC now))
      \<and> second (civilOf now) = second (civilOf (UTC now))"
    unfolding clock_def by (rule clock_text_inj) (rule clock_range)+
  then have "secondOfDay now = secondOfDay (UTC now)"
    by (simp add: clock_determines_second)
  then have "(secondOfDay (UTC now) + zoneOffset now) mod 86400 = secondOfDay (UTC now)"
    using secondOfDay_UTC [of now] by simp
  moreover have "secondOfDay (UTC now) mod 86400 = secondOfDay (UTC now)"
    using secondOfDay_range [of "UTC now"] by simp
  ultimately have "(secondOfDay (UTC now) + zoneOffset now) mod 86400 = secondOfDay (UTC now) mod 86400"
    by simp
  then have "86400 dvd (secondOfDay (UTC now) + zoneOffset now) - secondOfDay (UTC now)"
    by (simp only: mod_eq_dvd_iff)
  then have "zoneOffset now mod 86400 = 0"
    by simp
  with off show False by simp
qed

text \<open>
  C10. \<^verbatim>\<open>DeactivateKey\<close> stores as \<^verbatim>\<open>revokedAt\<close> the rendering of the clock's time in
  the clock's own zone, where \<^verbatim>\<open>InsertKey\<close> and \<^verbatim>\<open>InsertTransaction\<close> store the
  rendering of that time moved to UTC. For a clock whose zone is off UTC (by
  anything but a whole number of days, which no zone is) the two renderings differ.
\<close>

theorem deactivate_renders_local_time:
  "(DeactivateKey now a db = Inr db' \<longrightarrow>
      (\<forall>k \<in> set (keys db'). ApiKey k = a \<longrightarrow> RevokedAt k = Some (Format now ISO8601)))
   \<and> (InsertKey now key db = Inr db' \<longrightarrow>
      CreatedAt (last (keys db')) = Format (UTC now) ISO8601)
   \<and> (InsertTransaction now tx db = Inr db' \<longrightarrow>
      t_created_at (last (transactions db')) = Format (UTC now) ISO8601)
   \<and> (zoneOffset now mod 86400 \<noteq> 0 \<longrightarrow> Format now ISO8601 \<noteq> Format (UTC now) ISO8601)"
proof (intro conjI impI)
  assume "DeactivateKey now a db = Inr db'"
  then have k: "keys db' = map (\<lambda>k. if ApiKey k = a then k\<lparr>RevokedAt := Some (Format now ISO8601)\<rparr> else k) (keys db)"
    by (auto simp: DeactivateKey_def split: option.splits)
  show "\<forall>k \<in> set (keys db'). ApiKey k = a \<longrightarrow> RevokedAt k = Some (Format now ISO8601)"
    unfolding k by (intro ballI impI) (rule revoke_rows)
next
  assume "InsertKey now key db = Inr db'"
  then show "CreatedAt (last (keys db')) = Format (UTC now) ISO8601"
    by (auto simp: InsertKey_def Let_def split: option.splits if_splits)
next
  assume "InsertTransaction now tx db = Inr db'"
  then show "t_created_at (last (transactions db')) = Format (UTC now) ISO8601"
    by (auto simp: InsertTransaction_def Let_def split: option.splits if_splits)
next
  assume "zoneOffset now mod 86400 \<noteq> 0"
  then show "Format now ISO8601 \<noteq> Format (UTC now) ISO8601"
    by (rule local_rendering_differs)
qed

theorem deactivate_renders_local_time_witness:
  "DeactivateKey exNow ''key-1'' keyDB = Inr (revokedDB ''2021-03-04T13:00:00.123Z'')
   \<and> RevokedAt (hd (keys (revokedDB ''2021-03-04T13:00:00.123Z''))) = Some (Format exNow ISO8601)
   \<and> InsertKey exNow exKey emptyDB = Inr keyDB
   \<and> CreatedAt (last (keys keyDB)) = Format (UTC exNow) ISO8601
   \<and> InsertTransaction exNow exTx emptyDB = Inr txDB
   \<and> t_created_at (last (transactions txDB)) = Format (UTC exNow) ISO8601
   \<and> zoneOffset exNow mod 86400 \<noteq> 0
   \<and> Format exNow ISO8601 \<noteq> Format (UTC exNow) ISO8601
   \<and> Format exNow ISO8601 = ''2021-03-04T13:00:00.123Z''
   \<and> Format (UTC exNow) ISO8601 = ''2021-03-04T12:00:00.123Z''"
proof -
  have d: "DeactivateKey exNow ''key-1'' keyDB = Inr (revokedDB ''2021-03-04T13:00:00.123Z'')"
    by code_simp
  have m: "hd (keys (revokedDB ''2021-03-04T13:00:00.123Z''))
             \<in> set (keys (revokedDB ''2021-03-04T13:00:00.123Z''))"
    "ApiKey (hd (keys (revokedDB ''2021-03-04T13:00:00.123Z''))) = ''key-1''"
    by code_simp+
  have k: "InsertKey exNow exKey emptyDB = Inr keyDB" by code_simp
  have t: "InsertTransaction exNow exTx emptyDB = Inr txDB" by code_simp
  have z: "zoneOffset exNow mod 86400 \<noteq> 0" by code_simp
  have f: "Format exNow ISO8601 = ''2021-03-04T13:00:00.123Z''"
    "Format (UTC exNow) ISO8601 = ''2021-03-04T12:00:00.123Z''" by code_simp+
  note deactivate_renders_local_time [of exNow "''key-1''" keyDB "revokedDB ''2021-03-04T13:00:00.123Z''",
      THEN conjunct1, THEN mp, OF d, THEN bspec, OF m(1), THEN mp, OF m(2)]
    deactivate_renders_local_time [of exNow _ emptyDB keyDB exKey,
      THEN conjunct2, THEN conjunct1, THEN mp, OF k]
    deactivate_renders_local_time [of exNow _ emptyDB txDB _ exTx,
      THEN conjunct2, THEN conjunct2, THEN conjunct1, THEN mp, OF t]
    deactivate_renders_local_time [of exNow,
      THEN conjunct2, THEN conjunct2, THEN conjunct2, THEN mp, OF z]
  with d k t z f show ?thesis by (intro conjI)
qed

subsection \<open>C6: the transactions of the last hours\<close>

text \<open>
  C6 at one input. A transaction is inserted at 2021-03-04T12:00:00.5Z. The layout
  \<^verbatim>\<open>.999\<close> drops the zeros that end a fraction, and the fraction with them when it
  is zero, so the row is stored as \<^verbatim>\<open>2021-03-04T12:00:00.5Z\<close>. Asked at
  2021-03-05T12:00:00Z for the last 24 hours, \<^verbatim>\<open>GetAllTransactions\<close> computes the
  bound \<^verbatim>\<open>2021-03-04T12:00:00Z\<close>, half a second before the transaction; as text the
  row is below the bound, since \<^verbatim>\<open>.\<close> sorts before \<^verbatim>\<open>Z\<close>, and the result is empty.
\<close>

theorem hours_back_same_second:
  "InsertTransaction \<lparr>unixNano = 1614859200500000000, zoneOffset = 0\<rparr>
       (exTx\<lparr>TxID := ''tx-h''\<rparr>) emptyDB
     = Inr \<lparr>keys = [],
            transactions = [\<lparr>t_created_at = ''2021-03-04T12:00:00.5Z'', t_id = ''tx-h'',
              t_api_key = ''key-1'', t_data_bytes = 10, t_filename = Some ''a.txt'',
              t_secret = None, t_is_hash = 1\<rparr>],
            fault = None\<rparr>
   \<and> unixNano (Add \<lparr>unixNano = 1614945600000000000, zoneOffset = 0\<rparr> (hoursBackDuration 24))
       = 1614859200000000000
   \<and> Format (UTC (Add \<lparr>unixNano = 1614945600000000000, zoneOffset = 0\<rparr> (hoursBackDuration 24))) ISO8601
       = ''2021-03-04T12:00:00Z''
   \<and> GetAllTransactions \<lparr>unixNano = 1614945600000000000, zoneOffset = 0\<rparr> False 24
        \<lparr>keys = [],
            transactions = [\<lparr>t_created_at = ''2021-03-04T12:00:00.5Z'', t_id = ''tx-h'',
              t_api_key = ''key-1'', t_data_bytes = 10, t_filename = Some ''a.txt'',
              t_secret = None, t_is_hash = 1\<rparr>],
            fault = None\<rparr>
     = Inr []"
  by code_simp

text \<open>
  With rows of 25 and 23 hours before the same instant, the first is left out and
  the second returned.
\<close>

lemma hours_back_example:
  "GetAllTransactions \<lparr>unixNano = 1614945600000000000, zoneOffset = 0\<rparr> False 24
     \<lparr>keys = [],
      transactions = [exRow ''tx-25'' ''2021-03-04T11:00:00Z'' 1, exRow ''tx-23'' ''2021-03-04T13:00:00Z'' 2],
      fault = None\<rparr>
   = Inr [\<lparr>TxID = ''tx-23'', TxApiKey = ''key-1'', TxDataBytes = 2, TxFilename = None,
           TxSecret = None, TxIsHash = False, TxCreatedAt = ''2021-03-04T13:00:00Z''\<rparr>]
   \<and> Format \<lparr>unixNano = 1614945600000000000 - 25 * 3600000000000, zoneOffset = 0\<rparr> ISO8601
       = ''2021-03-04T11:00:00Z''
   \<and> Format \<lparr>unixNano = 1614945600000000000 - 23 * 3600000000000, zoneOffset = 0\<rparr> ISO8601
       = ''2021-03-04T13:00:00Z''"
  by code_simp

end
